theory Spec2Isabelle
  imports Complex_Main "HOL-Library.Sublist" "HOL-Library.Product_Lexorder" "HOL-Library.AList"
begin

section \<open>Python strings and values\<close>

text \<open>
  Python \<open>str\<close> values are modelled as \<^typ>\<open>string\<close>, read as ASCII text: the case
  mapping below is the one \<open>str.lower\<close> performs on ASCII letters, every other character is
  left as it is.
\<close>

definition lower_char :: "char \<Rightarrow> char" where
  "lower_char c =
     (case map_of (zip ''ABCDEFGHIJKLMNOPQRSTUVWXYZ'' ''abcdefghijklmnopqrstuvwxyz'') c of
        Some d \<Rightarrow> d
      | None \<Rightarrow> c)"

definition py_lower :: "string \<Rightarrow> string" where
  "py_lower s = map lower_char s"

text \<open>\<open>p in s\<close> on strings: \<open>p\<close> occurs in \<open>s\<close> as a contiguous block.\<close>

fun py_in :: "string \<Rightarrow> string \<Rightarrow> bool" where
  "py_in p [] = (p = [])"
| "py_in p (c # cs) = (prefix p (c # cs) \<or> py_in p cs)"

text \<open>\<open>s.startswith(p)\<close>.\<close>

definition startswith :: "string \<Rightarrow> string \<Rightarrow> bool" where
  "startswith s p = prefix p s"

text \<open>\<open>str(n)\<close> for a natural number: its decimal digits.\<close>

definition digit_char :: "nat \<Rightarrow> char" where
  "digit_char d = (''0123456789'' ! d)"

fun str_nat :: "nat \<Rightarrow> string" where
  "str_nat n = (if n < 10 then [digit_char n] else str_nat (n div 10) @ [digit_char (n mod 10)])"

declare str_nat.simps [simp del]

text \<open>
  Values as they travel through the pipeline (payload entries, JSON documents, result
  dictionaries). A \<open>dict\<close> has string keys and keeps insertion order, so it is an association
  list with distinct keys, read with \<^const>\<open>map_of\<close> and written with \<^const>\<open>AList.update\<close>.
  Python floats appear only as the decimal constants of the source and in comparisons
  against integers, and are carried as \<^typ>\<open>real\<close>.
\<close>

datatype pyval =
    PNone
  | PBool bool
  | PInt int
  | PFloat real
  | PStr string
  | PList "pyval list"
  | PDict "(string \<times> pyval) list"

datatype py_error =
    KeyError string
  | AttributeError
  | TypeError
  | ValueError
  | JSONDecodeError
  | OverflowError
  | OSError
  | ApiError
  | RecursionError

text \<open>Truth value of an object in a condition (\<open>if not name\<close>, \<open>if cached\<close>).\<close>

fun truthy :: "pyval \<Rightarrow> bool" where
  "truthy PNone = False"
| "truthy (PBool b) = b"
| "truthy (PInt i) = (i \<noteq> 0)"
| "truthy (PFloat r) = (r \<noteq> 0)"
| "truthy (PStr s) = (s \<noteq> [])"
| "truthy (PList xs) = (xs \<noteq> [])"
| "truthy (PDict kvs) = (kvs \<noteq> [])"

text \<open>\<open>d.get(k, default)\<close>: only a dict has the method.\<close>

fun dict_get :: "pyval \<Rightarrow> string \<Rightarrow> pyval \<Rightarrow> py_error + pyval" where
  "dict_get (PDict kvs) k dflt = Inr (case map_of kvs k of Some v \<Rightarrow> v | None \<Rightarrow> dflt)"
| "dict_get _ k dflt = Inl AttributeError"

text \<open>\<open>d[k]\<close> with a string key: KeyError on a dict without the key, TypeError elsewhere.\<close>

fun dict_item :: "pyval \<Rightarrow> string \<Rightarrow> py_error + pyval" where
  "dict_item (PDict kvs) k = (case map_of kvs k of Some v \<Rightarrow> Inr v | None \<Rightarrow> Inl (KeyError k))"
| "dict_item _ k = Inl TypeError"

text \<open>\<open>v.lower()\<close>: only a string has the method.\<close>

fun str_lower :: "pyval \<Rightarrow> py_error + string" where
  "str_lower (PStr s) = Inr (py_lower s)"
| "str_lower _ = Inl AttributeError"

text \<open>A list comprehension whose element expression may raise: the first error aborts it.\<close>

fun map_err :: "('a \<Rightarrow> py_error + 'b) \<Rightarrow> 'a list \<Rightarrow> py_error + 'b list" where
  "map_err f [] = Inr []"
| "map_err f (x # xs) =
     (case f x of
        Inl e \<Rightarrow> Inl e
      | Inr y \<Rightarrow> (case map_err f xs of Inl e \<Rightarrow> Inl e | Inr ys \<Rightarrow> Inr (y # ys)))"

definition dict_keys :: "pyval \<Rightarrow> string list" where
  "dict_keys v = (case v of PDict kvs \<Rightarrow> map fst kvs | _ \<Rightarrow> [])"

section \<open>agents/evaluator\_recommender.py: the rules-based gap evaluator\<close>

record gap_item =
  skill :: string
  market_rank :: nat
  priority :: string
  reasoning :: string

text \<open>The dictionary appended to \<open>gap_analysis\<close> for one gap.\<close>

definition gap_dict :: "gap_item \<Rightarrow> pyval" where
  "gap_dict g = PDict
     [(''skill'', PStr (skill g)),
      (''current_level'', PNone),
      (''market_rank'', PInt (int (market_rank g))),
      (''priority'', PStr (priority g)),
      (''reasoning'', PStr (reasoning g))]"

text \<open>The priority rules for one missing skill, from its rank and the lower-cased outlook.\<close>

definition priority_rule :: "string \<Rightarrow> nat \<Rightarrow> string" where
  "priority_rule outlook_lower rank =
     (if startswith outlook_lower ''high'' \<or> py_in ''future'' outlook_lower then
        (if rank \<le> 10 then ''High'' else (if rank \<le> 20 then ''Medium'' else ''Low''))
      else if startswith outlook_lower ''stable'' then
        (if rank \<le> 10 then ''Medium'' else ''Low'')
      else ''Low'')"

text \<open>
  The loop \<open>for idx, s in enumerate(top_skills[:20])\<close>; \<open>resume_names\<close> are the keys of the
  resume dictionary, \<open>idx\<close> is the index of the head of the remaining list.
\<close>

fun gap_loop :: "string list \<Rightarrow> pyval \<Rightarrow> nat \<Rightarrow> pyval list \<Rightarrow> py_error + gap_item list" where
  "gap_loop resume_names role_outlook idx [] = Inr []"
| "gap_loop resume_names role_outlook idx (s # rest) =
     (case dict_get s ''name'' PNone of
        Inl e \<Rightarrow> Inl e
      | Inr name \<Rightarrow>
          if \<not> truthy name then gap_loop resume_names role_outlook (idx + 1) rest
          else
            (case str_lower name of
               Inl e \<Rightarrow> Inl e
             | Inr lname \<Rightarrow>
                 let rank = idx + 1 in
                 if lname \<in> set resume_names then gap_loop resume_names role_outlook (idx + 1) rest
                 else
                   (case str_lower role_outlook of
                      Inl e \<Rightarrow> Inl e
                    | Inr outlook_lower \<Rightarrow>
                        let g = \<lparr>skill = (case name of PStr n \<Rightarrow> n | _ \<Rightarrow> []),
                                 market_rank = rank,
                                 priority = priority_rule outlook_lower rank,
                                 reasoning = ''Rank #'' @ str_nat rank @
                                   '' in short-term demand; role outlook: '' @
                                   (case role_outlook of PStr r \<Rightarrow> r | _ \<Rightarrow> []) @ ''.''\<rparr>
                        in (case gap_loop resume_names role_outlook (idx + 1) rest of
                              Inl e \<Rightarrow> Inl e
                            | Inr gs \<Rightarrow> Inr (g # gs)))))"

text \<open>The table \<open>{"High": 1, "Medium": 2, "Low": 3}\<close> of the sort key.\<close>

definition priority_table :: "(string \<times> nat) list" where
  "priority_table = [(''High'', 1), (''Medium'', 2), (''Low'', 3)]"

definition sort_key_of :: "gap_item \<Rightarrow> py_error + ((nat \<times> nat) \<times> gap_item)" where
  "sort_key_of g =
     (case map_of priority_table (priority g) of
        None \<Rightarrow> Inl (KeyError (priority g))
      | Some r \<Rightarrow> Inr ((r, market_rank g), g))"

text \<open>\<open>sorted(gap_analysis, key=...)\<close>: a stable sort on the pair (priority number, rank).\<close>

definition sorted_gaps :: "gap_item list \<Rightarrow> py_error + gap_item list" where
  "sorted_gaps gs =
     (case map_err sort_key_of gs of
        Inl e \<Rightarrow> Inl e
      | Inr keyed \<Rightarrow> Inr (map snd (sort_key fst keyed)))"

text \<open>
  \<open>rules_evaluator\<close>. The resume names are the keys of the dictionary comprehension
  \<open>{s.get("name", "").lower(): s for s in resume_skills}\<close>. The confidence is one of the two
  decimal constants, which \<open>round(confidence, 2)\<close> leaves as they are.
\<close>

definition rules_evaluator :: "pyval list \<Rightarrow> pyval list \<Rightarrow> pyval \<Rightarrow> py_error + pyval" where
  "rules_evaluator resume_skills short_term_skills long_term_forecast =
     (case map_err (\<lambda>s. case dict_get s ''name'' (PStr []) of
                              Inl e \<Rightarrow> Inl e
                            | Inr n \<Rightarrow> str_lower n) resume_skills of
        Inl e \<Rightarrow> Inl e
      | Inr resume_names \<Rightarrow>
          let top_skills = (if short_term_skills \<noteq> [] then take 20 short_term_skills else []) in
          (case dict_get long_term_forecast ''category'' (PStr ''Unknown'') of
             Inl e \<Rightarrow> Inl e
           | Inr role_outlook \<Rightarrow>
               (case gap_loop resume_names role_outlook 0 (take 20 top_skills) of
                  Inl e \<Rightarrow> Inl e
                | Inr gap_analysis \<Rightarrow>
                    (case sorted_gaps gap_analysis of
                       Inl e \<Rightarrow> Inl e
                     | Inr ranked \<Rightarrow>
                         Inr (PDict
                           [(''role_outlook'', role_outlook),
                            (''gap_analysis'', PList (map gap_dict gap_analysis)),
                            (''recommended_learning_path'',
                               PList (map (\<lambda>g. PStr (skill g)) (take 5 ranked))),
                            (''estimated_time_weeks'', PInt 12),
                            (''confidence'',
                               PFloat (if gap_analysis \<noteq> [] then 0.75 else 0.4))])))))"

text \<open>The sample payload of the module's own test harness.\<close>

definition sample_resume_skills :: "pyval list" where
  "sample_resume_skills =
     [PDict [(''name'', PStr ''Python'')], PDict [(''name'', PStr ''Docker'')],
      PDict [(''name'', PStr ''SQL'')]]"

definition market_skill :: "string \<Rightarrow> string \<Rightarrow> int \<Rightarrow> pyval" where
  "market_skill n t f =
     PDict [(''name'', PStr n), (''type'', PStr t), (''frequency'', PInt f),
            (''mention_count'', PInt f)]"

definition sample_short_term_skills :: "pyval list" where
  "sample_short_term_skills =
     [market_skill ''Python'' ''language'' 95, market_skill ''AWS'' ''cloud'' 80,
      market_skill ''Kubernetes'' ''tool'' 70, market_skill ''Docker'' ''tool'' 65,
      market_skill ''CI/CD'' ''tool'' 60]"

definition sample_long_term_forecast :: "pyval" where
  "sample_long_term_forecast = PDict [(''category'', PStr ''High growth (Future-safe)'')]"

section \<open>agents/base.py: confidence from the sample size\<close>

definition calculate_confidence :: "int \<Rightarrow> real" where
  "calculate_confidence num_jobs =
     (if num_jobs \<ge> 100 then 0.95
      else if num_jobs \<ge> 50 then 0.85
      else if num_jobs \<ge> 25 then 0.70
      else 0.50)"

section \<open>tools/skill\_extraction.py: the keyword classifier\<close>

definition languages :: "string list" where
  "languages = [''python'', ''java'', ''javascript'', ''sql'', ''r'', ''c++'', ''go'', ''rust'']"

definition frameworks :: "string list" where
  "frameworks = [''react'', ''django'', ''flask'', ''tensorflow'', ''pytorch'', ''spring'']"

definition cloud :: "string list" where
  "cloud = [''aws'', ''azure'', ''gcp'', ''cloud'']"

definition databases :: "string list" where
  "databases = [''mysql'', ''postgresql'', ''mongodb'', ''redis'', ''sql'']"

text \<open>\<open>any(k in skill_lower for k in keywords)\<close>.\<close>

definition any_in :: "string list \<Rightarrow> string \<Rightarrow> bool" where
  "any_in keywords skill_lower = list_ex (\<lambda>k. py_in k skill_lower) keywords"

definition classify_skill_type :: "string \<Rightarrow> string" where
  "classify_skill_type skill_name =
     (let skill_lower = py_lower skill_name in
      if any_in languages skill_lower then ''language''
      else if any_in frameworks skill_lower then ''framework''
      else if any_in cloud skill_lower then ''cloud''
      else if any_in databases skill_lower then ''db''
      else ''concept'')"

section \<open>tools/llm\_analysis.py and the evaluator agent\<close>

text \<open>\<open>s.strip(chars)\<close> and \<open>s.strip()\<close>; the latter removes ASCII white space.\<close>

definition strip_chars :: "char list \<Rightarrow> string \<Rightarrow> string" where
  "strip_chars cs s =
     dropWhile (\<lambda>c. c \<in> set cs) (rev (dropWhile (\<lambda>c. c \<in> set cs) (rev s)))"

definition whitespace :: "char list" where
  "whitespace = [CHR '' '', CHR 0x09, CHR 0x0A, CHR 0x0B, CHR 0x0C, CHR 0x0D,
                 CHR 0x1C, CHR 0x1D, CHR 0x1E, CHR 0x1F]"

definition py_strip :: "string \<Rightarrow> string" where
  "py_strip s = strip_chars whitespace s"

text \<open>
  What the evaluator gets from outside the program: the text of the model's reply
  (\<open>None\<close> when creating the model or the call raises), \<open>json.loads\<close> (\<open>None\<close> when it
  raises), the text an f-string puts for a value, and \<open>int((a / b) * 100)\<close>, which Python
  computes in binary floating point.
\<close>

record env =
  llm_reply :: "string option"
  json_loads :: "string \<Rightarrow> pyval option"
  py_format :: "pyval \<Rightarrow> string"
  percent :: "nat \<Rightarrow> nat \<Rightarrow> int"

text \<open>
  \<open>re.search(r'\{[\s\S]*\}', text)\<close>: the match runs from the first opening brace to the
  last closing brace after it.
\<close>

definition re_search_braces :: "string \<Rightarrow> string option" where
  "re_search_braces text =
     (case dropWhile (\<lambda>c. c \<noteq> CHR 0x7B) text of
        [] \<Rightarrow> None
      | b # rest \<Rightarrow>
          if CHR 0x7D \<in> set rest
          then Some (b # rev (dropWhile (\<lambda>c. c \<noteq> CHR 0x7D) (rev rest)))
          else None)"

text \<open>\<open>v >= 50\<close> for a value of the payload: numbers compare, anything else is a TypeError.\<close>

fun ge_50 :: "pyval \<Rightarrow> py_error + bool" where
  "ge_50 (PInt i) = Inr (i \<ge> 50)"
| "ge_50 (PFloat r) = Inr (r \<ge> 50)"
| "ge_50 (PBool b) = Inr False"
| "ge_50 _ = Inl TypeError"

text \<open>
  The loop of \<open>basic_skill_evaluation\<close> over the required skills. The accumulator holds
  \<open>matching\<close>, and for \<open>critical_gaps\<close> and \<open>nice_gaps\<close> the name and frequency of each entry.
\<close>

fun basic_loop ::
  "string list \<Rightarrow> pyval list \<Rightarrow> pyval list \<times> (pyval \<times> pyval) list \<times> (pyval \<times> pyval) list \<Rightarrow>
   py_error + (pyval list \<times> (pyval \<times> pyval) list \<times> (pyval \<times> pyval) list)" where
  "basic_loop user_skills_lower [] acc = Inr acc"
| "basic_loop user_skills_lower (req_skill # rest) (matching, critical_gaps, nice_gaps) =
     (case dict_item req_skill ''name'' of
        Inl e \<Rightarrow> Inl e
      | Inr n \<Rightarrow>
          (case str_lower n of
             Inl e \<Rightarrow> Inl e
           | Inr skill_name \<Rightarrow>
               if skill_name \<in> set user_skills_lower
               then basic_loop user_skills_lower rest (matching @ [n], critical_gaps, nice_gaps)
               else
                 (case dict_item req_skill ''frequency'' of
                    Inl e \<Rightarrow> Inl e
                  | Inr f \<Rightarrow>
                      (case ge_50 f of
                         Inl e \<Rightarrow> Inl e
                       | Inr True \<Rightarrow>
                           basic_loop user_skills_lower rest
                             (matching, critical_gaps @ [(n, f)], nice_gaps)
                       | Inr False \<Rightarrow>
                           basic_loop user_skills_lower rest
                             (matching, critical_gaps, nice_gaps @ [(n, f)])))))"

definition critical_gap_dict :: "env \<Rightarrow> pyval \<times> pyval \<Rightarrow> pyval" where
  "critical_gap_dict env g = PDict
     [(''skill'', fst g), (''frequency'', snd g), (''priority'', PStr ''high''),
      (''reason'', PStr (''Required by '' @ py_format env (snd g) @ ''% of jobs''))]"

definition nice_gap_dict :: "pyval \<times> pyval \<Rightarrow> pyval" where
  "nice_gap_dict g = PDict
     [(''skill'', fst g), (''frequency'', snd g), (''priority'', PStr ''medium'')]"

definition recommendation_dict :: "env \<Rightarrow> pyval \<times> pyval \<Rightarrow> pyval" where
  "recommendation_dict env g = PDict
     [(''skill'', fst g),
      (''action'', PStr (''Learn '' @ py_format env (fst g) @ '' fundamentals'')),
      (''timeframe'', PStr ''1-2 months''),
      (''priority'', PStr ''high'')]"

definition basic_skill_evaluation :: "env \<Rightarrow> pyval list \<Rightarrow> pyval list \<Rightarrow> pyval \<Rightarrow> py_error + pyval" where
  "basic_skill_evaluation env user_skills required_skills job_title =
     (case map_err str_lower user_skills of
        Inl e \<Rightarrow> Inl e
      | Inr user_skills_lower \<Rightarrow>
          (case basic_loop user_skills_lower required_skills ([], [], []) of
             Inl e \<Rightarrow> Inl e
           | Inr (matching, critical_gaps, nice_gaps) \<Rightarrow>
               let match_score =
                     (if required_skills \<noteq> []
                      then percent env (length matching) (length required_skills) else 0)
               in Inr (PDict
                    [(''match_score'', PInt match_score),
                     (''matching_skills'', PList matching),
                     (''critical_gaps'', PList (map (critical_gap_dict env) (take 5 critical_gaps))),
                     (''nice_to_have_gaps'', PList (map nice_gap_dict (take 5 nice_gaps))),
                     (''recommendations'',
                        PList (map (recommendation_dict env) (take 3 critical_gaps))),
                     (''summary'',
                        PStr (''You match '' @ py_format env (PInt match_score) @
                              ''% of required skills for '' @ py_format env job_title @
                              ''. Focus on critical gaps first.'')),
                     (''job_title'', job_title),
                     (''analysis_method'', PStr ''Basic keyword matching (LLM unavailable)'')])))"

text \<open>\<open>", ".join(user_skills)\<close> raises TypeError unless every item is a string.\<close>

fun join_check :: "pyval list \<Rightarrow> py_error + unit" where
  "join_check [] = Inr ()"
| "join_check (PStr s # rest) = join_check rest"
| "join_check (_ # rest) = Inl TypeError"

text \<open>The three subscripts in the line of the prompt written for one required skill.\<close>

definition prompt_line_check :: "pyval \<Rightarrow> py_error + unit" where
  "prompt_line_check s =
     (case dict_item s ''name'' of
        Inl e \<Rightarrow> Inl e
      | Inr _ \<Rightarrow>
          (case dict_item s ''type'' of
             Inl e \<Rightarrow> Inl e
           | Inr _ \<Rightarrow>
               (case dict_item s ''frequency'' of Inl e \<Rightarrow> Inl e | Inr _ \<Rightarrow> Inr ())))"

text \<open>
  The \<open>try\<close> block of \<open>evaluate_user_skills_with_gemini\<close>: building the prompt, the call,
  the search for a JSON object in the reply, parsing it, and tagging the parsed object.
\<close>

definition gemini_try :: "env \<Rightarrow> pyval list \<Rightarrow> pyval list \<Rightarrow> pyval \<Rightarrow> py_error + pyval" where
  "gemini_try env user_skills required_skills job_title =
     (case join_check user_skills of
        Inl e \<Rightarrow> Inl e
      | Inr _ \<Rightarrow>
          (case map_err prompt_line_check (take 15 required_skills) of
             Inl e \<Rightarrow> Inl e
           | Inr _ \<Rightarrow>
               (case llm_reply env of
                  None \<Rightarrow> Inl ApiError
                | Some text \<Rightarrow>
                    (case re_search_braces (py_strip text) of
                       None \<Rightarrow> Inl ValueError
                     | Some m \<Rightarrow>
                         (case json_loads env m of
                            None \<Rightarrow> Inl JSONDecodeError
                          | Some (PDict kvs) \<Rightarrow>
                              Inr (PDict (AList.update ''analysis_method'' (PStr ''Gemini 2.0 Flash'')
                                     (AList.update ''job_title'' job_title kvs)))
                          | Some _ \<Rightarrow> Inl TypeError)))))"

text \<open>
  The model gives nothing usable: the call raises, or the reply holds no JSON object, or
  the object found in it does not parse.
\<close>

definition llm_unusable :: "env \<Rightarrow> bool" where
  "llm_unusable env =
     (case llm_reply env of
        None \<Rightarrow> True
      | Some text \<Rightarrow>
          (case re_search_braces (py_strip text) of
             None \<Rightarrow> True
           | Some m \<Rightarrow> json_loads env m = None))"

text \<open>Every exception of the block is caught and answered by the keyword evaluation.\<close>

definition evaluate_user_skills_with_gemini ::
  "env \<Rightarrow> pyval list \<Rightarrow> pyval list \<Rightarrow> pyval \<Rightarrow> py_error + pyval" where
  "evaluate_user_skills_with_gemini env user_skills required_skills job_title =
     (case gemini_try env user_skills required_skills job_title of
        Inr result \<Rightarrow> Inr result
      | Inl e \<Rightarrow> basic_skill_evaluation env user_skills required_skills job_title)"

text \<open>\<open>safe_json_parse\<close>: a second attempt on the text without surrounding back-ticks.\<close>

definition safe_json_parse :: "env \<Rightarrow> string \<Rightarrow> pyval" where
  "safe_json_parse env text =
     (case json_loads env text of
        Some v \<Rightarrow> v
      | None \<Rightarrow>
          (case json_loads env (py_strip (strip_chars [CHR 0x60] (py_strip text))) of
             Some v \<Rightarrow> v
           | None \<Rightarrow> PNone))"

text \<open>
  The payload of \<open>EvaluatorRecommenderAgent.run\<close>, with the types its docstring gives; an
  absent key is \<open>None\<close>.
\<close>

record payload =
  p_resume_skills :: "pyval list option"
  p_short_term_skills :: "pyval list option"
  p_long_term_forecast :: "pyval option"

text \<open>
  The \<open>try\<close> block of \<open>run\<close>: \<open>Some d\<close> when it returns \<open>d\<close>, \<open>None\<close> when an exception is
  caught or no \<open>return\<close> is reached and control passes to the rules engine.
\<close>

definition llm_attempt :: "env \<Rightarrow> pyval list \<Rightarrow> pyval list \<Rightarrow> pyval \<Rightarrow> pyval option" where
  "llm_attempt env resume_skills short_term_skills long_term_forecast =
     (case map_err (\<lambda>s. dict_get s ''name'' PNone) resume_skills of
        Inl e \<Rightarrow> None
      | Inr user_skills \<Rightarrow>
          (case dict_get long_term_forecast ''category'' (PStr []) of
             Inl e \<Rightarrow> None
           | Inr job_title \<Rightarrow>
               (case evaluate_user_skills_with_gemini env user_skills short_term_skills job_title of
                  Inl e \<Rightarrow> None
                | Inr (PStr text) \<Rightarrow>
                    (case safe_json_parse env text of
                       PDict kvs \<Rightarrow> Some (PDict kvs)
                     | _ \<Rightarrow> None)
                | Inr (PDict kvs) \<Rightarrow> Some (PDict kvs)
                | Inr _ \<Rightarrow> None)))"

definition resume_skills_of :: "payload \<Rightarrow> pyval list" where
  "resume_skills_of pl = (case p_resume_skills pl of Some v \<Rightarrow> v | None \<Rightarrow> [])"

definition short_term_skills_of :: "payload \<Rightarrow> pyval list" where
  "short_term_skills_of pl = (case p_short_term_skills pl of Some v \<Rightarrow> v | None \<Rightarrow> [])"

definition long_term_forecast_of :: "payload \<Rightarrow> pyval" where
  "long_term_forecast_of pl = (case p_long_term_forecast pl of Some v \<Rightarrow> v | None \<Rightarrow> PDict [])"

definition run :: "env \<Rightarrow> payload \<Rightarrow> py_error + pyval" where
  "run env pl =
     (let resume_skills = resume_skills_of pl;
          short_term_skills = short_term_skills_of pl;
          long_term_forecast = long_term_forecast_of pl
      in case llm_attempt env resume_skills short_term_skills long_term_forecast of
           Some d \<Rightarrow> Inr d
         | None \<Rightarrow> rules_evaluator resume_skills short_term_skills long_term_forecast)"

text \<open>The keys of the two result shapes.\<close>

definition rules_shape :: "string list" where
  "rules_shape = [''role_outlook'', ''gap_analysis'', ''recommended_learning_path'',
                  ''estimated_time_weeks'', ''confidence'']"

definition basic_shape :: "string list" where
  "basic_shape = [''match_score'', ''matching_skills'', ''critical_gaps'', ''nice_to_have_gaps'',
                  ''recommendations'', ''summary'', ''job_title'', ''analysis_method'']"

definition result_keys :: "py_error + pyval \<Rightarrow> string list option" where
  "result_keys r = (case r of Inl e \<Rightarrow> None | Inr v \<Rightarrow> Some (dict_keys v))"

text \<open>
  A concrete environment in which the model cannot be reached. The formatter writes
  strings and integers as \<open>str\<close> does, and the percentage is exact where the quotient is.
\<close>

definition format_plain :: "pyval \<Rightarrow> string" where
  "format_plain v =
     (case v of
        PStr s \<Rightarrow> s
      | PInt i \<Rightarrow> (if i < 0 then ''-'' @ str_nat (nat (- i)) else str_nat (nat i))
      | PNone \<Rightarrow> ''None''
      | PBool b \<Rightarrow> (if b then ''True'' else ''False'')
      | _ \<Rightarrow> [])"

definition env_down :: env where
  "env_down = \<lparr>llm_reply = None, json_loads = (\<lambda>s. None), py_format = format_plain,
               percent = (\<lambda>a b. int ((a * 100) div b))\<rparr>"

text \<open>An environment whose model answers with an empty JSON object.\<close>

definition env_empty_object :: env where
  "env_empty_object =
     \<lparr>llm_reply = Some [CHR 0x7B, CHR 0x7D],
      json_loads = (\<lambda>s. if s = [CHR 0x7B, CHR 0x7D] then Some (PDict []) else None),
      py_format = format_plain,
      percent = (\<lambda>a b. int ((a * 100) div b))\<rparr>"

definition sample_payload :: payload where
  "sample_payload = \<lparr>p_resume_skills = Some sample_resume_skills,
                     p_short_term_skills = Some sample_short_term_skills,
                     p_long_term_forecast = Some sample_long_term_forecast\<rparr>"

definition sparse_payload :: payload where
  "sparse_payload = \<lparr>p_resume_skills = Some [PDict [(''name'', PStr ''Python'')]],
                     p_short_term_skills = Some [PDict [(''name'', PStr ''AWS'')]],
                     p_long_term_forecast = Some (PDict [(''category'', PStr ''Stable'')])\<rparr>"

text \<open>The keyword evaluation of the sample payload.\<close>

definition sample_basic_result :: pyval where
  "sample_basic_result = PDict
     [(''match_score'', PInt 40),
      (''matching_skills'', PList [PStr ''Python'', PStr ''Docker'']),
      (''critical_gaps'',
       PList
        [PDict [(''skill'', PStr ''AWS''), (''frequency'', PInt 80), (''priority'', PStr ''high''),
                (''reason'', PStr ''Required by 80% of jobs'')],
         PDict [(''skill'', PStr ''Kubernetes''), (''frequency'', PInt 70),
                (''priority'', PStr ''high''), (''reason'', PStr ''Required by 70% of jobs'')],
         PDict [(''skill'', PStr ''CI/CD''), (''frequency'', PInt 60), (''priority'', PStr ''high''),
                (''reason'', PStr ''Required by 60% of jobs'')]]),
      (''nice_to_have_gaps'', PList []),
      (''recommendations'',
       PList
        [PDict [(''skill'', PStr ''AWS''), (''action'', PStr ''Learn AWS fundamentals''),
                (''timeframe'', PStr ''1-2 months''), (''priority'', PStr ''high'')],
         PDict [(''skill'', PStr ''Kubernetes''),
                (''action'', PStr ''Learn Kubernetes fundamentals''),
                (''timeframe'', PStr ''1-2 months''), (''priority'', PStr ''high'')],
         PDict [(''skill'', PStr ''CI/CD''), (''action'', PStr ''Learn CI/CD fundamentals''),
                (''timeframe'', PStr ''1-2 months''), (''priority'', PStr ''high'')]]),
      (''summary'',
       PStr ''You match 40% of required skills for High growth (Future-safe). Focus on critical gaps first.''),
      (''job_title'', PStr ''High growth (Future-safe)''),
      (''analysis_method'', PStr ''Basic keyword matching (LLM unavailable)'')]"

section \<open>tools/careeronestop\_tools.py: the local fallback table\<close>

text \<open>
  The confidences of this table are Python floats on which the code computes, so they are
  modelled as what they are: IEEE 754 doubles, each the real number it stands for. A finite
  double is an integer of at most 53 bits times a power of two, with exponent at least
  \<open>-1074\<close>. A float literal denotes the double nearest to its decimal value, and a
  subtraction returns the double nearest to the exact difference; a value half-way between
  two doubles goes to the one with the even integer. Overflow to infinity is not modelled:
  the values here lie between 0 and 1.
\<close>

definition round_half_even :: "real \<Rightarrow> int" where
  "round_half_even x =
     (let f = \<lfloor>x\<rfloor>; d = x - of_int f
      in if d < 1 / 2 then f else if d > 1 / 2 then f + 1 else if even f then f else f + 1)"

text \<open>
  The binary exponent of a positive number: \<open>binade n x 0\<close> is the \<open>e\<close> with
  \<open>2 ^ e \<le> x < 2 ^ (e + 1)\<close> when \<open>n\<close> steps are enough to reach it.
\<close>

fun binade :: "nat \<Rightarrow> real \<Rightarrow> int \<Rightarrow> int" where
  "binade 0 x e = e"
| "binade (Suc n) x e =
     (if x < 1 then binade n (2 * x) (e - 1)
      else if x \<ge> 2 then binade n (x / 2) (e + 1)
      else e)"

definition double_of :: "real \<Rightarrow> real" where
  "double_of x =
     (if x = 0 then 0
      else
        let a = \<bar>x\<bar>;
            q = max (binade 2200 a 0 - 52) (- 1074);
            m = round_half_even (a * power_int 2 (- q))
        in sgn x * of_int m * power_int 2 q)"

text \<open>\<open>a - b\<close> on floats.\<close>

definition float_sub :: "real \<Rightarrow> real \<Rightarrow> real" where
  "float_sub a b = double_of (a - b)"

record mapping =
  m_title :: string
  m_soc :: string
  m_confidence :: real

text \<open>An entry of the table; its confidence is written as a float literal.\<close>

definition entry :: "string \<Rightarrow> string \<Rightarrow> string \<Rightarrow> real \<Rightarrow> string \<times> mapping" where
  "entry k t s c = (k, \<lparr>m_title = t, m_soc = s, m_confidence = double_of c\<rparr>)"

text \<open>\<open>common_mappings\<close>, in the order of the dictionary literal.\<close>

definition common_mappings :: "(string \<times> mapping) list" where
  "common_mappings =
     [entry ''data scientist'' ''Data Scientists'' ''15-2051'' 0.85,
      entry ''machine learning engineer'' ''Data Scientists'' ''15-2051'' 0.80,
      entry ''ml engineer'' ''Data Scientists'' ''15-2051'' 0.80,
      entry ''software engineer'' ''Software Developers'' ''15-1252'' 0.85,
      entry ''software developer'' ''Software Developers'' ''15-1252'' 0.90,
      entry ''developer'' ''Software Developers'' ''15-1252'' 0.75,
      entry ''full stack developer'' ''Software Developers'' ''15-1252'' 0.85,
      entry ''frontend developer'' ''Web Developers'' ''15-1254'' 0.85,
      entry ''backend developer'' ''Software Developers'' ''15-1252'' 0.85,
      entry ''web developer'' ''Web Developers'' ''15-1254'' 0.90,
      entry ''devops engineer'' ''Software Developers'' ''15-1252'' 0.75,
      entry ''mlops engineer'' ''Software Developers'' ''15-1252'' 0.70,
      entry ''cloud engineer'' ''Network and Computer Systems Administrators'' ''15-1244'' 0.80,
      entry ''cloud architect'' ''Computer Network Architects'' ''15-1241'' 0.85,
      entry ''data analyst'' ''Data Analysts'' ''15-2051'' 0.85,
      entry ''data engineer'' ''Database Architects'' ''15-1243'' 0.80,
      entry ''business analyst'' ''Management Analysts'' ''13-1111'' 0.80,
      entry ''product manager'' ''Computer and Information Systems Managers'' ''11-3021'' 0.75]"

record occupation =
  official_title :: string
  soc_code :: "string option"
  confidence :: real
  notes_text :: string
  data_source :: string

text \<open>\<open>job_title.lower().strip()\<close>.\<close>

definition title_key :: "string \<Rightarrow> string" where
  "title_key job_title = py_strip (py_lower job_title)"

text \<open>The test of the partial match: \<open>key in title_lower or title_lower in key\<close>.\<close>

definition either_contains :: "string \<Rightarrow> string \<Rightarrow> bool" where
  "either_contains key title_lower = (py_in key title_lower \<or> py_in title_lower key)"

text \<open>The loop over the items of the table: it returns at the first partial match.\<close>

fun first_partial :: "string \<Rightarrow> (string \<times> mapping) list \<Rightarrow> (string \<times> mapping) option" where
  "first_partial title_lower [] = None"
| "first_partial title_lower ((key, m) # rest) =
     (if either_contains key title_lower then Some (key, m)
      else first_partial title_lower rest)"

text \<open>The arrow of the partial-match note, in UTF-8.\<close>

definition arrow :: string where
  "arrow = [CHR 0xE2, CHR 0x86, CHR 0x92]"

definition fuzzy_match_occupation :: "string \<Rightarrow> occupation" where
  "fuzzy_match_occupation job_title =
     (let title_lower = title_key job_title in
      case map_of common_mappings title_lower of
        Some m \<Rightarrow>
          \<lparr>official_title = m_title m, soc_code = Some (m_soc m),
           confidence = m_confidence m,
           notes_text = ''Matched via fallback database (API unavailable)'',
           data_source = ''Local mapping''\<rparr>
      | None \<Rightarrow>
          (case first_partial title_lower common_mappings of
             Some (key, m) \<Rightarrow>
               \<lparr>official_title = m_title m, soc_code = Some (m_soc m),
                confidence = float_sub (m_confidence m) (double_of 0.1),
                notes_text = ''Partial match: '' @ [CHR 0x27] @ job_title @ [CHR 0x27, CHR '' ''] @
                        arrow @ [CHR '' '', CHR 0x27] @ key @ [CHR 0x27],
                data_source = ''Local mapping''\<rparr>
           | None \<Rightarrow>
               \<lparr>official_title = job_title, soc_code = None, confidence = double_of 0.3,
                notes_text = ''No match found. Manual mapping recommended.'',
                data_source = ''No match''\<rparr>))"

section \<open>tools/youtube\_tools.py: the resource filter\<close>

text \<open>
  A \<open>datetime\<close> is the number of microseconds since the start of day 0 of the proleptic
  calendar, so that a \<open>timedelta\<close> is a difference of such numbers. The \<open>upload_date\<close> of a
  resource is the date that \<open>strptime\<close> reads from its \<open>YYYY-MM-DD\<close> text, kept as the
  ordinal of the day; the parsed \<open>datetime\<close> is the midnight that starts the day.
\<close>

type_synonym datetime = int

definition us_per_day :: int where
  "us_per_day = 86400 * 1000000"

text \<open>\<open>timedelta(days=n)\<close>.\<close>

definition timedelta_days :: "int \<Rightarrow> int" where
  "timedelta_days n = n * us_per_day"

record resource =
  title :: string
  views :: int
  upload_date :: int

text \<open>\<open>datetime.strptime(resource["upload_date"], "%Y-%m-%d")\<close>.\<close>

definition strptime_date :: "resource \<Rightarrow> datetime" where
  "strptime_date r = upload_date r * us_per_day"

fun filter_loop :: "datetime \<Rightarrow> resource list \<Rightarrow> resource list \<Rightarrow> resource list" where
  "filter_loop five_years_ago [] filtered = filtered"
| "filter_loop five_years_ago (r # rest) filtered =
     (if strptime_date r \<ge> five_years_ago \<and> views r \<ge> 100000
      then filter_loop five_years_ago rest (filtered @ [r])
      else if strptime_date r \<ge> five_years_ago \<and> views r \<ge> 50000
      then filter_loop five_years_ago rest (filtered @ [r])
      else filter_loop five_years_ago rest filtered)"

text \<open>\<open>filter_resources\<close>; the first argument is the reading of \<open>datetime.now()\<close>.\<close>

definition filter_resources :: "datetime \<Rightarrow> resource list \<Rightarrow> resource list" where
  "filter_resources now resources =
     (let five_years_ago = now - timedelta_days (365 * 5)
      in filter_loop five_years_ago resources [])"

text \<open>The age of an upload at the time of filtering, and the five years of the filter.\<close>

definition upload_age :: "datetime \<Rightarrow> resource \<Rightarrow> int" where
  "upload_age now r = now - strptime_date r"

definition five_years :: int where
  "five_years = timedelta_days (365 * 5)"

text \<open>
  A video uploaded on 2021-11-04 (day 738098) with 100,000 views, and the midnight that
  starts 2026-11-03 (day 739923), which is 1825 days later.
\<close>

definition boundary_video :: resource where
  "boundary_video = \<lparr>title = ''Python for Beginners'', views = 100000, upload_date = 738098\<rparr>"

definition boundary_now :: datetime where
  "boundary_now = 739923 * us_per_day"

text \<open>
  Noon of the same day, and the midnight that starts 2026-11-04 (day 739924), the fifth
  anniversary of the upload: 2024 has a leap day, so five calendar years are 1826 days here.
\<close>

definition boundary_noon :: datetime where
  "boundary_noon = 739923 * us_per_day + 12 * 3600 * 1000000"

definition fifth_anniversary :: datetime where
  "fifth_anniversary = 739924 * us_per_day"

text \<open>
  Three more candidates seen at the same time: 80,000 views and two years old (uploaded
  on day 739193), 80,000 views and six years old, 200,000 views and six years old (both
  uploaded on day 737733).
\<close>

definition recent_video :: resource where
  "recent_video = \<lparr>title = ''Docker Crash Course'', views = 80000, upload_date = 739193\<rparr>"

definition old_video :: resource where
  "old_video = \<lparr>title = ''Docker Basics'', views = 80000, upload_date = 737733\<rparr>"

definition old_popular_video :: resource where
  "old_popular_video = \<lparr>title = ''Docker Deep Dive'', views = 200000, upload_date = 737733\<rparr>"

section \<open>tools/cache\_tools.py: the JSON file cache\<close>

text \<open>
  The cache file as the functions find it: absent, present but not readable, present with a
  content that is not JSON, or holding a JSON document. A document written by \<open>json.dump\<close>
  is read back by \<open>json.load\<close> as the same value.
\<close>

datatype file_state = Missing | Unreadable | Corrupt | Holds pyval

text \<open>
  What \<open>datetime.fromisoformat\<close> returns: a naive \<open>datetime\<close>, or one with a time zone, from
  which a naive one cannot be subtracted.
\<close>

datatype parsed_time = Naive datetime | Aware datetime

text \<open>
  The clock and the two conversions between a \<open>datetime\<close> and its ISO text;
  \<open>fromisoformat\<close> is \<open>None\<close> on a text it rejects.
\<close>

record clock =
  time_now :: datetime
  isoformat :: "datetime \<Rightarrow> string"
  fromisoformat :: "string \<Rightarrow> parsed_time option"

text \<open>
  \<open>timedelta(seconds=n)\<close>, in microseconds. A \<open>timedelta\<close> holds less than a thousand
  million days in either direction and the constructor raises OverflowError beyond.
\<close>

definition timedelta_seconds :: "int \<Rightarrow> py_error + int" where
  "timedelta_seconds n =
     (if - 999999999 \<le> n div 86400 \<and> n div 86400 \<le> 999999999
      then Inr (n * 1000000) else Inl OverflowError)"

text \<open>\<open>role in cache\<close> and \<open>cache[role]\<close> for a string \<open>role\<close> and any JSON value.\<close>

fun py_contains :: "pyval \<Rightarrow> string \<Rightarrow> py_error + bool" where
  "py_contains (PDict kvs) k = Inr (k \<in> fst ` set kvs)"
| "py_contains (PList xs) k = Inr (PStr k \<in> set xs)"
| "py_contains (PStr s) k = Inr (py_in k s)"
| "py_contains _ k = Inl TypeError"

text \<open>\<open>datetime.fromisoformat(v)\<close>: TypeError unless \<open>v\<close> is a string, ValueError on a bad one.\<close>

definition parse_timestamp :: "clock \<Rightarrow> pyval \<Rightarrow> py_error + parsed_time" where
  "parse_timestamp clk v =
     (case v of
        PStr s \<Rightarrow> (case fromisoformat clk s of None \<Rightarrow> Inl ValueError | Some t \<Rightarrow> Inr t)
      | _ \<Rightarrow> Inl TypeError)"

text \<open>\<open>datetime.now() - cached_time\<close>, in microseconds.\<close>

definition time_since :: "datetime \<Rightarrow> parsed_time \<Rightarrow> py_error + int" where
  "time_since t_now cached_time =
     (case cached_time of
        Naive t \<Rightarrow> Inr (t_now - t)
      | Aware t \<Rightarrow> Inl TypeError)"

text \<open>
  The \<open>try\<close> block of \<open>get_cached_skills\<close>, entered when the file exists. \<open>PNone\<close> is the
  \<open>None\<close> of a miss.
\<close>

definition get_cached_try :: "clock \<Rightarrow> file_state \<Rightarrow> string \<Rightarrow> int \<Rightarrow> py_error + pyval" where
  "get_cached_try clk fs role ttl_seconds =
     (case fs of
        Missing \<Rightarrow> Inl OSError
      | Unreadable \<Rightarrow> Inl OSError
      | Corrupt \<Rightarrow> Inl JSONDecodeError
      | Holds cache \<Rightarrow>
          (case py_contains cache role of
             Inl e \<Rightarrow> Inl e
           | Inr False \<Rightarrow> Inr PNone
           | Inr True \<Rightarrow>
               (case dict_item cache role of
                  Inl e \<Rightarrow> Inl e
                | Inr cached_data \<Rightarrow>
                    (case dict_item cached_data ''timestamp'' of
                       Inl e \<Rightarrow> Inl e
                     | Inr ts \<Rightarrow>
                         (case parse_timestamp clk ts of
                            Inl e \<Rightarrow> Inl e
                          | Inr cached_time \<Rightarrow>
                              (case time_since (time_now clk) cached_time of
                                 Inl e \<Rightarrow> Inl e
                               | Inr age \<Rightarrow>
                                   (case timedelta_seconds ttl_seconds of
                                      Inl e \<Rightarrow> Inl e
                                    | Inr delta \<Rightarrow>
                                        if age > delta then Inr PNone
                                        else dict_item cached_data ''data'')))))))"

definition get_cached_skills :: "clock \<Rightarrow> file_state \<Rightarrow> string \<Rightarrow> int \<Rightarrow> py_error + pyval" where
  "get_cached_skills clk fs role ttl_seconds =
     (if fs = Missing then Inr PNone
      else (case get_cached_try clk fs role ttl_seconds of
              Inr v \<Rightarrow> Inr v
            | Inl e \<Rightarrow> Inr PNone))"

text \<open>
  \<open>cache_skills_data\<close>: the state of the file afterwards. An exception while reading the
  existing file or while storing the entry is caught and leaves the file as it was.
\<close>

definition cache_entry :: "clock \<Rightarrow> pyval \<Rightarrow> pyval" where
  "cache_entry clk data = PDict [(''timestamp'', PStr (isoformat clk (time_now clk))), (''data'', data)]"

definition cache_skills_data :: "clock \<Rightarrow> file_state \<Rightarrow> string \<Rightarrow> pyval \<Rightarrow> file_state" where
  "cache_skills_data clk fs role data =
     (case fs of
        Missing \<Rightarrow> Holds (PDict [(role, cache_entry clk data)])
      | Unreadable \<Rightarrow> Unreadable
      | Corrupt \<Rightarrow> Corrupt
      | Holds (PDict kvs) \<Rightarrow> Holds (PDict (AList.update role (cache_entry clk data) kvs))
      | Holds other \<Rightarrow> Holds other)"

text \<open>A clock for concrete runs: the ISO text of a time is modelled by its decimal digits.\<close>

definition digits_clock :: "datetime \<Rightarrow> clock" where
  "digits_clock t =
     \<lparr>time_now = t,
      isoformat = (\<lambda>d. str_nat (nat d)),
      fromisoformat = (\<lambda>s. if s \<noteq> [] \<and> list_all (\<lambda>c. c \<in> set ''0123456789'') s
                             then Some (Naive (int (foldl (\<lambda>a c. 10 * a +
                                    (case map_of (zip ''0123456789'' [0..<10]) c of
                                       Some d \<Rightarrow> d | None \<Rightarrow> 0)) 0 s)))
                             else None)\<rparr>"

text \<open>A cache file whose entry for one role carries a time stamp that is not ISO text.\<close>

definition bad_stamp_cache :: "(string \<times> pyval) list" where
  "bad_stamp_cache =
     [(''Data Scientist'',
       PDict [(''timestamp'', PStr ''yesterday''), (''data'', PDict [(''role'', PStr ''Data Scientist'')])])]"

section \<open>tools/cache\_db.py: the SQLite cache\<close>

text \<open>
  The table \<open>cache\<close>: a row per key with the JSON text of the value, the ISO text of the
  time of writing and the time to live. \<open>json.dumps\<close> and \<open>json.loads\<close> join the clock as
  inputs of the embedding; \<open>loads\<close> is \<open>None\<close> on a text that is not JSON.
\<close>

record cache_row =
  row_value :: string
  row_timestamp :: string
  row_ttl_seconds :: int

type_synonym cache_table = "string \<rightharpoonup> cache_row"

record codec = clock +
  dumps :: "pyval \<Rightarrow> string"
  loads :: "string \<Rightarrow> pyval option"

definition get_from_cache :: "codec \<Rightarrow> cache_table \<Rightarrow> string \<Rightarrow> py_error + pyval" where
  "get_from_cache cdc db key =
     (case db key of
        None \<Rightarrow> Inr PNone
      | Some result \<Rightarrow>
          (case fromisoformat cdc (row_timestamp result) of
             None \<Rightarrow> Inl ValueError
           | Some cached_time \<Rightarrow>
               (case time_since (time_now cdc) cached_time of
                  Inl e \<Rightarrow> Inl e
                | Inr age \<Rightarrow>
                    (case timedelta_seconds (row_ttl_seconds result) of
                       Inl e \<Rightarrow> Inl e
                     | Inr delta \<Rightarrow>
                         if age > delta then Inr PNone
                         else (case loads cdc (row_value result) of
                                 None \<Rightarrow> Inl JSONDecodeError
                               | Some v \<Rightarrow> Inr v)))))"

text \<open>
  \<open>set_in_cache\<close>: \<open>INSERT OR REPLACE\<close> of the row. An SQLite INTEGER has 64 bits, and the
  driver raises OverflowError on a larger Python integer.
\<close>

definition set_in_cache ::
  "codec \<Rightarrow> cache_table \<Rightarrow> string \<Rightarrow> pyval \<Rightarrow> int \<Rightarrow> py_error + cache_table" where
  "set_in_cache cdc db key v ttl_seconds =
     (if - (2 ^ 63) \<le> ttl_seconds \<and> ttl_seconds < 2 ^ 63
      then Inr (db(key \<mapsto> \<lparr>row_value = dumps cdc v,
                             row_timestamp = isoformat cdc (time_now cdc),
                             row_ttl_seconds = ttl_seconds\<rparr>))
      else Inl OverflowError)"

text \<open>\<open>set_in_cache(key, v, ttl)\<close>, then \<open>get_from_cache(key)\<close> when the clock shows \<open>later\<close>.\<close>

definition set_then_get ::
  "codec \<Rightarrow> cache_table \<Rightarrow> string \<Rightarrow> pyval \<Rightarrow> int \<Rightarrow> datetime \<Rightarrow> py_error + pyval" where
  "set_then_get cdc db key v ttl_seconds later =
     (case set_in_cache cdc db key v ttl_seconds of
        Inl e \<Rightarrow> Inl e
      | Inr db' \<Rightarrow> get_from_cache (cdc\<lparr>time_now := later\<rparr>) db' key)"

text \<open>
  A codec for concrete runs: the clock of digits, and a JSON codec that knows the empty
  object only.
\<close>

definition empty_object_codec :: "datetime \<Rightarrow> codec" where
  "empty_object_codec t =
     clock.extend (digits_clock t)
       \<lparr>dumps = (\<lambda>v. [CHR 0x7B, CHR 0x7D]),
        loads = (\<lambda>s. if s = [CHR 0x7B, CHR 0x7D] then Some (PDict []) else None)\<rparr>"

section \<open>tools/bls\_tools.py and agents/long\_term\_forecast\_agent.py\<close>

text \<open>
  What the forecast gets from outside: the year of \<open>datetime.now()\<close>, whether an API key is
  configured, and the outcome of the request to the statistics API. The outcome is \<open>None\<close>
  when the request fails, is not answered with \<open>REQUEST_SUCCEEDED\<close>, or its answer cannot be
  parsed; otherwise it is the list of yearly projections that \<open>parse_bls_response\<close> builds
  from the answer together with the text of the projection period.
\<close>

record bls_env =
  current_year :: int
  api_key_configured :: bool
  bls_reply :: "(pyval list \<times> string) option"

text \<open>The sector averages of \<open>fetch_from_occupational_outlook\<close>, keyed by SOC prefix.\<close>

definition growth_rates :: "(string \<times> real) list" where
  "growth_rates = [(''15-'', 10.2), (''13-'', 6.8), (''29-'', 8.4), (''27-'', 2.5), (''11-'', 4.1)]"

text \<open>The loop that looks for the first prefix of the SOC code; 3.1 is the default.\<close>

fun find_growth_rate :: "string \<Rightarrow> (string \<times> real) list \<Rightarrow> real" where
  "find_growth_rate soc [] = 3.1"
| "find_growth_rate soc ((p, rate) # rest) =
     (if startswith soc p then rate else find_growth_rate soc rest)"

text \<open>
  \<open>int(base_employment * ((1 + growth_rate/100) ** i))\<close>, in exact arithmetic; Python
  computes the power in binary floating point.
\<close>

definition employment_at :: "real \<Rightarrow> nat \<Rightarrow> int" where
  "employment_at growth_rate i = \<lfloor>750000 * (1 + growth_rate / 100) ^ i\<rfloor>"

definition projection :: "int \<Rightarrow> real \<Rightarrow> nat \<Rightarrow> pyval" where
  "projection year0 growth_rate i =
     PDict ([(''year'', PInt (year0 + int i)),
             (''employment'', PInt (employment_at growth_rate i)),
             (''growth_rate'', PFloat (if i > 0 then growth_rate else 0.0))] @
            (if i > 0
             then [(''change'', PInt (employment_at growth_rate i - employment_at growth_rate (i - 1)))]
             else []))"

definition str_int :: "int \<Rightarrow> string" where
  "str_int i = (if i < 0 then ''-'' @ str_nat (nat (- i)) else str_nat (nat i))"

definition fetch_from_occupational_outlook :: "bls_env \<Rightarrow> string \<Rightarrow> string \<Rightarrow> pyval" where
  "fetch_from_occupational_outlook benv soc job_title =
     (let growth_rate = find_growth_rate soc growth_rates;
          year0 = current_year benv
      in PDict
           [(''soc_code'', PStr soc),
            (''job_title'', PStr job_title),
            (''projections'', PList (map (projection year0 growth_rate) [0..<11])),
            (''source'', PStr ''BLS Occupational Outlook Handbook (Estimated)''),
            (''projection_period'', PStr (str_int year0 @ ''-'' @ str_int (year0 + 10))),
            (''growth_rate_annual'', PFloat growth_rate),
            (''success'', PBool True),
            (''note'', PStr (''Based on BLS 2024-2034 projections. Actual data unavailable for SOC '' @
               soc @ ''. Register for BLS API key at https://data.bls.gov/registrationEngine/ for accurate data.''))])"

text \<open>
  \<open>fetch_bls_data_v2\<close> and \<open>fetch_bls_data_v1\<close>: the parsed answer with the version tags, or
  the failure record.
\<close>

definition fetch_bls_data :: "bls_env \<Rightarrow> string \<Rightarrow> string \<Rightarrow> pyval" where
  "fetch_bls_data benv soc job_title =
     (case bls_reply benv of
        None \<Rightarrow> PDict [(''success'', PBool False), (''error'', PStr ''Unknown error'')]
      | Some (projections, period) \<Rightarrow>
          PDict ([(''soc_code'', PStr soc),
                  (''job_title'', PStr job_title),
                  (''projections'', PList projections),
                  (''source'', PStr ''U.S. Bureau of Labor Statistics''),
                  (''projection_period'', PStr period),
                  (''api_version'', PStr (if api_key_configured benv then ''v2'' else ''v1'')),
                  (''success'', PBool True)] @
                 (if api_key_configured benv then []
                  else [(''note'', PStr ''Using v1 API. Register for API key to increase limits.'')])))"

definition fetch_job_projections :: "bls_env \<Rightarrow> string \<Rightarrow> string \<Rightarrow> pyval" where
  "fetch_job_projections benv soc job_title =
     (let result = fetch_bls_data benv soc job_title in
      case dict_get result ''success'' PNone of
        Inr flag \<Rightarrow>
          if truthy flag then result
          else fetch_from_occupational_outlook benv soc job_title
      | Inl e \<Rightarrow> fetch_from_occupational_outlook benv soc job_title)"

text \<open>
  \<open>LongTermForecastAgent.run\<close>: the value returned or the exception raised, and the state
  of the cache file afterwards. The two \<open>print\<close> calls at the end read
  \<open>result['growth_percent']\<close> and \<open>result['category']\<close>.
\<close>

definition forecast_run ::
  "clock \<Rightarrow> bls_env \<Rightarrow> file_state \<Rightarrow> string \<Rightarrow> string \<Rightarrow> (py_error + pyval) \<times> file_state" where
  "forecast_run clk benv fs soc job_title =
     (let cache_key = ''forecast_'' @ soc in
      case get_cached_skills clk fs cache_key 604800 of
        Inl e \<Rightarrow> (Inl e, fs)
      | Inr cached \<Rightarrow>
          if truthy cached then (Inr cached, fs)
          else
            let result = fetch_job_projections benv soc job_title in
            (case py_contains result ''error'' of
               Inl e \<Rightarrow> (Inl e, fs)
             | Inr True \<Rightarrow> (Inr result, fs)
             | Inr False \<Rightarrow>
                 (case result of
                    PDict kvs \<Rightarrow>
                      let result' = PDict (AList.update ''cache_ttl_seconds'' (PInt 604800) kvs);
                          fs' = cache_skills_data clk fs cache_key result'
                      in (case dict_item result' ''growth_percent'' of
                            Inl e \<Rightarrow> (Inl e, fs')
                          | Inr _ \<Rightarrow>
                              (case dict_item result' ''category'' of
                                 Inl e \<Rightarrow> (Inl e, fs')
                               | Inr _ \<Rightarrow> (Inr result', fs')))
                  | _ \<Rightarrow> (Inl TypeError, fs))))"

text \<open>The environment of a run without API key in which the request fails.\<close>

definition offline_bls :: bls_env where
  "offline_bls = \<lparr>current_year = 2026, api_key_configured = False, bls_reply = None\<rparr>"

section \<open>agents/base.py: the run of the short-term skills agent\<close>

definition upper_char :: "char \<Rightarrow> char" where
  "upper_char c =
     (case map_of (zip ''abcdefghijklmnopqrstuvwxyz'' ''ABCDEFGHIJKLMNOPQRSTUVWXYZ'') c of
        Some d \<Rightarrow> d
      | None \<Rightarrow> c)"

definition is_alpha :: "char \<Rightarrow> bool" where
  "is_alpha c = (c \<in> set ''abcdefghijklmnopqrstuvwxyzABCDEFGHIJKLMNOPQRSTUVWXYZ'')"

text \<open>
  \<open>s.title()\<close>: a letter that follows a letter is lower-cased, any other letter is
  upper-cased.
\<close>

fun title_from :: "bool \<Rightarrow> string \<Rightarrow> string" where
  "title_from prev [] = []"
| "title_from prev (c # cs) =
     (if is_alpha c then (if prev then lower_char c else upper_char c) # title_from True cs
      else c # title_from False cs)"

definition py_title :: "string \<Rightarrow> string" where
  "py_title s = title_from False s"

text \<open>
  The second element of \<open>s.split(sep)\<close> when \<open>sep\<close> occurs in \<open>s\<close>: what follows the first
  occurrence of \<open>sep\<close>, up to the next one.
\<close>

fun after_sep :: "string \<Rightarrow> string \<Rightarrow> string option" where
  "after_sep sep [] = (if sep = [] then Some [] else None)"
| "after_sep sep (c # cs) =
     (if prefix sep (c # cs) then Some (drop (length sep) (c # cs)) else after_sep sep cs)"

fun before_sep :: "string \<Rightarrow> string \<Rightarrow> string" where
  "before_sep sep [] = []"
| "before_sep sep (c # cs) = (if prefix sep (c # cs) then [] else c # before_sep sep cs)"

definition extract_role_from_query :: "string \<Rightarrow> string" where
  "extract_role_from_query query =
     (case after_sep '' for '' (py_lower query) of
        Some rest \<Rightarrow> py_title (py_strip (before_sep '' for '' rest))
      | None \<Rightarrow> py_title (py_strip query))"

text \<open>
  What \<open>generate_content\<close> gives \<open>analyze_skills_with_gemini\<close>: the call raises, or it
  answers with a response whose \<open>text\<close> is \<open>None\<close>, or with a response that has a text.
\<close>

datatype gemini_reply = CallFails | NoText | ReplyText string

text \<open>
  The environment of the agent: the descriptions that \<open>fetch_job_postings\<close> returns, the
  reply of the model, and \<open>json.loads\<close> with the exception it raises on a given text.
\<close>

record agent_env =
  job_descriptions :: "string list"
  skills_reply :: gemini_reply
  loads_json :: "string \<Rightarrow> py_error + pyval"

definition empty_skills_json :: string where
  "empty_skills_json = [CHR 0x7B, CHR 0x22] @ ''skills'' @ [CHR 0x22] @ '': []'' @ [CHR 0x7D]"

text \<open>
  \<open>analyze_skills_with_gemini\<close> returns \<open>response.text\<close>, which may be \<open>None\<close>, or the
  text of an empty skill list when the call raises.
\<close>

definition analyze_skills_with_gemini :: "agent_env \<Rightarrow> pyval" where
  "analyze_skills_with_gemini aenv =
     (case skills_reply aenv of
        CallFails \<Rightarrow> PStr empty_skills_json
      | NoText \<Rightarrow> PNone
      | ReplyText text \<Rightarrow> PStr text)"

text \<open>
  \<open>json.loads(skills_json)\<close> inside \<open>try\<close> ... \<open>except json.JSONDecodeError\<close>: only that
  exception is answered with the empty skill list. Any other one leaves \<open>run\<close>, and so does
  the TypeError that \<open>json.loads\<close> raises on \<open>None\<close>.
\<close>

definition load_skills_data :: "agent_env \<Rightarrow> pyval \<Rightarrow> py_error + pyval" where
  "load_skills_data aenv skills_json =
     (case skills_json of
        PStr text \<Rightarrow>
          (case loads_json aenv text of
             Inr v \<Rightarrow> Inr v
           | Inl JSONDecodeError \<Rightarrow> Inr (PDict [(''skills'', PList [])])
           | Inl e \<Rightarrow> Inl e)
      | _ \<Rightarrow> Inl TypeError)"

text \<open>\<open>v[:20]\<close>: lists and strings can be sliced, other JSON values raise TypeError.\<close>

fun slice_20 :: "pyval \<Rightarrow> py_error + pyval" where
  "slice_20 (PList xs) = Inr (PList (take 20 xs))"
| "slice_20 (PStr s) = Inr (PStr (take 20 s))"
| "slice_20 _ = Inl TypeError"

text \<open>
  \<open>BaseAgent.run\<close>: the value returned or the exception raised, and the state of the cache
  file afterwards.
\<close>

definition base_run :: "clock \<Rightarrow> agent_env \<Rightarrow> file_state \<Rightarrow> string \<Rightarrow> (py_error + pyval) \<times> file_state" where
  "base_run clk aenv fs query =
     (let role = extract_role_from_query query in
      case get_cached_skills clk fs role 86400 of
        Inl e \<Rightarrow> (Inl e, fs)
      | Inr cached \<Rightarrow>
          if truthy cached then (Inr cached, fs)
          else if job_descriptions aenv = [] then
            (Inr (PDict [(''error'', PStr ''No job postings found''), (''role'', PStr role),
                         (''confidence'', PFloat 0.0)]), fs)
          else
            (case load_skills_data aenv (analyze_skills_with_gemini aenv) of
               Inl e \<Rightarrow> (Inl e, fs)
             | Inr skills_data \<Rightarrow>
                 (case dict_get skills_data ''skills'' (PList []) of
                    Inl e \<Rightarrow> (Inl e, fs)
                  | Inr skills \<Rightarrow>
                      (case slice_20 skills of
                         Inl e \<Rightarrow> (Inl e, fs)
                       | Inr top_skills \<Rightarrow>
                           let result = PDict
                                 [(''role'', PStr role),
                                  (''top_skills'', top_skills),
                                  (''data_source'',
                                     PStr (''Adzuna (90d, '' @
                                           str_nat (length (job_descriptions aenv)) @ '' jobs)'')),
                                  (''confidence'',
                                     PFloat (calculate_confidence
                                               (int (length (job_descriptions aenv))))),
                                  (''cache_ttl_seconds'', PInt 86400)]
                           in (Inr result, cache_skills_data clk fs role result)))))"

text \<open>
  The property that the specification states for the skill list of a result: at most 20
  skills, each with a frequency of at least 5, ordered by frequency and then by mention
  count, both descending. A field that is absent or not a number counts as 0.
\<close>

definition number_field :: "string \<Rightarrow> pyval \<Rightarrow> real" where
  "number_field k s =
     (case dict_get s k PNone of
        Inr (PInt i) \<Rightarrow> real_of_int i
      | Inr (PFloat r) \<Rightarrow> r
      | _ \<Rightarrow> 0)"

definition rank_key :: "pyval \<Rightarrow> real \<times> real" where
  "rank_key s = (number_field ''frequency'' s, number_field ''mention_count'' s)"

definition spec_skill_list :: "pyval list \<Rightarrow> bool" where
  "spec_skill_list xs =
     (length xs \<le> 20 \<and>
      list_all (\<lambda>s. number_field ''frequency'' s \<ge> 5) xs \<and>
      sorted_wrt (\<lambda>a b. rank_key a \<ge> rank_key b) xs)"

text \<open>
  A run for data scientists: 30 postings, and a model whose reply lists a skill found in
  three percent of them before one found in ninety percent.
\<close>

definition unranked_skills :: "pyval list" where
  "unranked_skills =
     [PDict [(''name'', PStr ''Excel''), (''type'', PStr ''tool''), (''frequency'', PInt 3),
             (''mention_count'', PInt 1)],
      PDict [(''name'', PStr ''Python''), (''type'', PStr ''language''), (''frequency'', PInt 90),
             (''mention_count'', PInt 27)]]"

definition quoted :: "string \<Rightarrow> string" where
  "quoted s = [CHR 0x22] @ s @ [CHR 0x22]"

definition unranked_reply :: string where
  "unranked_reply =
     ''{'' @ quoted ''skills'' @ '': [{'' @
       quoted ''name'' @ '': '' @ quoted ''Excel'' @ '', '' @
       quoted ''type'' @ '': '' @ quoted ''tool'' @ '', '' @
       quoted ''frequency'' @ '': 3, '' @ quoted ''mention_count'' @ '': 1}, {'' @
       quoted ''name'' @ '': '' @ quoted ''Python'' @ '', '' @
       quoted ''type'' @ '': '' @ quoted ''language'' @ '', '' @
       quoted ''frequency'' @ '': 90, '' @ quoted ''mention_count'' @ '': 27}]}''"

definition unranked_env :: agent_env where
  "unranked_env =
     \<lparr>job_descriptions = replicate 30 ''We are hiring a data scientist.'',
      skills_reply = ReplyText unranked_reply,
      loads_json = (\<lambda>s. if s = unranked_reply
                          then Inr (PDict [(''skills'', PList unranked_skills)])
                          else Inl JSONDecodeError)\<rparr>"

section \<open>Facts about the string operations\<close>

lemma py_in_iff_sublist: "py_in p s \<longleftrightarrow> sublist p s"
  by (induction s) (auto simp: sublist_Cons_right)

lemma py_in_iff: "py_in p s \<longleftrightarrow> (\<exists>before after. s = before @ p @ after)"
  by (simp add: py_in_iff_sublist sublist_def)

lemma py_in_trans: "py_in a b \<Longrightarrow> py_in b c \<Longrightarrow> py_in a c"
  unfolding py_in_iff_sublist by (rule sublist_order.order_trans)

section \<open>Confidence schedule\<close>

text \<open>
  Claim C3. The confidence of a sample of \<open>n\<close> postings is 0.95 from 100 on, 0.85 from 50
  to 99, 0.70 from 25 to 49 and 0.50 below 25, and it never decreases when the sample grows.
  The schedule holds for every integer, the non-negative ones among them.
\<close>

theorem calculate_confidence_schedule:
  "(100 \<le> n \<longrightarrow> calculate_confidence n = 0.95) \<and>
   (50 \<le> n \<and> n < 100 \<longrightarrow> calculate_confidence n = 0.85) \<and>
   (25 \<le> n \<and> n < 50 \<longrightarrow> calculate_confidence n = 0.70) \<and>
   (n < 25 \<longrightarrow> calculate_confidence n = 0.50) \<and>
   (m \<le> n \<longrightarrow> calculate_confidence m \<le> calculate_confidence n)"
  by (simp add: calculate_confidence_def)

theorem calculate_confidence_schedule_witness:
  "calculate_confidence 100 = 0.95 \<and> calculate_confidence 99 = 0.85 \<and>
   calculate_confidence 50 = 0.85 \<and> calculate_confidence 49 = 0.70 \<and>
   calculate_confidence 25 = 0.70 \<and> calculate_confidence 24 = 0.50 \<and>
   calculate_confidence 0 = 0.50 \<and>
   calculate_confidence 24 \<le> calculate_confidence 100"
  using calculate_confidence_schedule [of 100 24]
    calculate_confidence_schedule [of 99 99]
    calculate_confidence_schedule [of 50 50]
    calculate_confidence_schedule [of 49 49]
    calculate_confidence_schedule [of 25 25]
    calculate_confidence_schedule [of 24 24]
    calculate_confidence_schedule [of 0 0]
  by simp

section \<open>The keyword classifier\<close>

lemma any_in_languages_of_databases:
  assumes "any_in databases x"
  shows "any_in languages x"
proof -
  have s1: "py_in ''sql'' ''mysql''" by simp
  have s2: "py_in ''sql'' ''postgresql''" by simp
  have s3: "py_in ''go'' ''mongodb''" by simp
  have s4: "py_in ''r'' ''redis''" by simp
  from assms have "py_in ''sql'' x \<or> py_in ''go'' x \<or> py_in ''r'' x"
    unfolding any_in_def databases_def
    using py_in_trans [OF s1] py_in_trans [OF s2] py_in_trans [OF s3] py_in_trans [OF s4]
    by auto
  then show ?thesis
    by (auto simp: any_in_def languages_def)
qed

text \<open>
  Every database keyword contains a language keyword (\<open>sql\<close>, \<open>go\<close> or \<open>r\<close>), so the
  \<open>db\<close> branch of the classifier is behind the \<open>language\<close> branch for every input.
\<close>

lemma classify_skill_type_never_db: "classify_skill_type s \<noteq> ''db''"
  using any_in_languages_of_databases [of "py_lower s"]
  by (auto simp: classify_skill_type_def Let_def)

text \<open>
  Claim C10. For every input string the classifier returns one of \<open>language\<close>,
  \<open>framework\<close>, \<open>cloud\<close>, \<open>db\<close>, \<open>concept\<close> and never \<open>tool\<close>. The keyword lists are
  tried in the order language, framework, cloud, database, and the first list with a keyword
  occurring in the lower-cased name decides; a name containing \<open>sql\<close> matches both the
  language and the database list and is classified \<open>language\<close>.
\<close>

theorem classify_skill_type_values:
  "classify_skill_type s \<in> {''language'', ''framework'', ''cloud'', ''db'', ''concept''} \<and>
   classify_skill_type s \<noteq> ''tool'' \<and>
   (any_in languages (py_lower s) \<longrightarrow> classify_skill_type s = ''language'') \<and>
   (\<not> any_in languages (py_lower s) \<and> any_in frameworks (py_lower s) \<longrightarrow>
      classify_skill_type s = ''framework'') \<and>
   (\<not> any_in languages (py_lower s) \<and> \<not> any_in frameworks (py_lower s) \<and>
    any_in cloud (py_lower s) \<longrightarrow> classify_skill_type s = ''cloud'') \<and>
   (\<not> any_in languages (py_lower s) \<and> \<not> any_in frameworks (py_lower s) \<and>
    \<not> any_in cloud (py_lower s) \<and> any_in databases (py_lower s) \<longrightarrow>
      classify_skill_type s = ''db'') \<and>
   (\<not> any_in languages (py_lower s) \<and> \<not> any_in frameworks (py_lower s) \<and>
    \<not> any_in cloud (py_lower s) \<and> \<not> any_in databases (py_lower s) \<longrightarrow>
      classify_skill_type s = ''concept'') \<and>
   (py_in ''sql'' (py_lower s) \<longrightarrow>
      any_in languages (py_lower s) \<and> any_in databases (py_lower s) \<and>
      classify_skill_type s = ''language'')"
proof -
  have sql: "py_in ''sql'' (py_lower s) \<Longrightarrow>
      any_in languages (py_lower s) \<and> any_in databases (py_lower s)"
    by (simp add: any_in_def languages_def databases_def)
  show ?thesis
    using sql by (simp add: classify_skill_type_def Let_def)
qed

theorem classify_skill_type_values_witness:
  "py_in ''sql'' (py_lower ''MySQL'') \<and> classify_skill_type ''MySQL'' = ''language'' \<and>
   classify_skill_type ''Flask'' = ''framework'' \<and>
   classify_skill_type ''AWS'' = ''cloud'' \<and>
   classify_skill_type ''Kanban'' = ''concept''"
proof -
  have a: "py_in ''sql'' (py_lower ''MySQL'')" by code_simp
  have b: "\<not> any_in languages (py_lower ''Flask'') \<and> any_in frameworks (py_lower ''Flask'')"
    by code_simp
  have c: "\<not> any_in languages (py_lower ''AWS'') \<and> \<not> any_in frameworks (py_lower ''AWS'') \<and>
    any_in cloud (py_lower ''AWS'')" by code_simp
  have d: "\<not> any_in languages (py_lower ''Kanban'') \<and>
    \<not> any_in frameworks (py_lower ''Kanban'') \<and>
    \<not> any_in cloud (py_lower ''Kanban'') \<and> \<not> any_in databases (py_lower ''Kanban'')"
    by code_simp
  show ?thesis
    using a b c d classify_skill_type_values [of "''MySQL''"]
      classify_skill_type_values [of "''Flask''"]
      classify_skill_type_values [of "''AWS''"]
      classify_skill_type_values [of "''Kanban''"]
    by simp
qed

section \<open>The rules-based gap evaluator on the sample payload\<close>

text \<open>
  Claim C1. For resume skills Python, Docker and SQL, market skills ranked Python, AWS,
  Kubernetes, Docker, CI/CD and the outlook "High growth (Future-safe)", the rules-based
  evaluator returns the gaps AWS (rank 2, High), Kubernetes (rank 3, High) and CI/CD
  (rank 5, High) in that order, and the learning path AWS, Kubernetes, CI/CD. Python and
  Docker are left out: their lower-cased names are keys of the resume dictionary.
\<close>

theorem rules_evaluator_sample:
  "rules_evaluator sample_resume_skills sample_short_term_skills sample_long_term_forecast =
     Inr (PDict
       [(''role_outlook'', PStr ''High growth (Future-safe)''),
        (''gap_analysis'',
         PList
          [gap_dict \<lparr>skill = ''AWS'', market_rank = 2, priority = ''High'',
             reasoning = ''Rank #2 in short-term demand; role outlook: High growth (Future-safe).''\<rparr>,
           gap_dict \<lparr>skill = ''Kubernetes'', market_rank = 3, priority = ''High'',
             reasoning = ''Rank #3 in short-term demand; role outlook: High growth (Future-safe).''\<rparr>,
           gap_dict \<lparr>skill = ''CI/CD'', market_rank = 5, priority = ''High'',
             reasoning = ''Rank #5 in short-term demand; role outlook: High growth (Future-safe).''\<rparr>]),
        (''recommended_learning_path'', PList [PStr ''AWS'', PStr ''Kubernetes'', PStr ''CI/CD'']),
        (''estimated_time_weeks'', PInt 12),
        (''confidence'', PFloat 0.75)]) \<and>
   map_err (\<lambda>s. case dict_get s ''name'' (PStr []) of Inl e \<Rightarrow> Inl e | Inr n \<Rightarrow> str_lower n)
     sample_resume_skills = Inr [''python'', ''docker'', ''sql'']"
  by code_simp

section \<open>The evaluator agent and the shapes of its result\<close>

lemma gemini_try_tagged:
  assumes "gemini_try env us rs jt = Inr r"
  shows "\<exists>kvs. r = PDict kvs \<and> ''job_title'' \<in> fst ` set kvs \<and> ''analysis_method'' \<in> fst ` set kvs"
  using assms
  by (auto simp: gemini_try_def dom_update split: sum.splits option.splits pyval.splits)

lemma basic_skill_evaluation_keys:
  assumes "basic_skill_evaluation env us rs jt = Inr r"
  shows "dict_keys r = basic_shape"
  using assms
  by (auto simp: basic_skill_evaluation_def dict_keys_def basic_shape_def Let_def
      split: sum.splits prod.splits)

lemma evaluate_returns_tagged_dict:
  assumes "evaluate_user_skills_with_gemini env us rs jt = Inr r"
  shows "\<exists>kvs. r = PDict kvs \<and> ''job_title'' \<in> fst ` set kvs \<and> ''analysis_method'' \<in> fst ` set kvs"
proof (cases "gemini_try env us rs jt")
  case (Inr a)
  with assms have "a = r" by (simp add: evaluate_user_skills_with_gemini_def)
  with Inr show ?thesis using gemini_try_tagged by blast
next
  case (Inl e)
  with assms have b: "basic_skill_evaluation env us rs jt = Inr r"
    by (simp add: evaluate_user_skills_with_gemini_def)
  then have "dict_keys r = basic_shape" by (rule basic_skill_evaluation_keys)
  moreover from b obtain kvs where "r = PDict kvs"
    by (auto simp: basic_skill_evaluation_def Let_def split: sum.splits prod.splits)
  ultimately show ?thesis
    by (auto simp: dict_keys_def basic_shape_def)
qed

lemma rules_evaluator_keys:
  assumes "rules_evaluator rs sts ltf = Inr r"
  shows "dict_keys r = rules_shape"
  using assms
  by (auto simp: rules_evaluator_def dict_keys_def rules_shape_def Let_def split: sum.splits)

lemma llm_attempt_result:
  assumes "llm_attempt env rs sts ltf = Some d"
  shows "\<exists>us jt. map_err (\<lambda>s. dict_get s ''name'' PNone) rs = Inr us \<and>
           dict_get ltf ''category'' (PStr []) = Inr jt \<and>
           evaluate_user_skills_with_gemini env us sts jt = Inr d"
proof -
  from assms obtain us jt v where
    us: "map_err (\<lambda>s. dict_get s ''name'' PNone) rs = Inr us" and
    jt: "dict_get ltf ''category'' (PStr []) = Inr jt" and
    v: "evaluate_user_skills_with_gemini env us sts jt = Inr v"
    by (auto simp: llm_attempt_def split: sum.splits)
  from evaluate_returns_tagged_dict [OF v] obtain kvs where "v = PDict kvs" by blast
  with assms us jt v have "d = v" by (simp add: llm_attempt_def)
  with us jt v show ?thesis by blast
qed

text \<open>
  The claim C2 as stated fails. With the model unreachable, \<open>run\<close> on the sample payload
  returns the keyword evaluation of the tool, whose keys are not those of the rules engine;
  and a reply holding the empty JSON object is accepted with the two tags the tool adds as its
  only keys.
\<close>

theorem run_rules_shape_counterexample:
  "llm_reply env_down = None \<and>
   result_keys (run env_down sample_payload) = Some basic_shape \<and>
   result_keys (run env_down sample_payload) \<noteq> Some rules_shape \<and>
   run env_empty_object sample_payload =
     Inr (PDict [(''job_title'', PStr ''High growth (Future-safe)''),
                 (''analysis_method'', PStr ''Gemini 2.0 Flash'')])"
  by code_simp

text \<open>
  Claim C2, as amended. \<open>run\<close> returns the dictionary of the LLM tool as it is, without
  looking at its keys; every such dictionary carries \<open>job_title\<close> and \<open>analysis_method\<close>.
  The rules engine answers exactly when the \<open>try\<close> block returns nothing (the tool raises,
  or reading the names of the resume skills raises), so a result of \<open>run\<close> has either the
  five keys of the rules engine or the tool's tags. When the model gives nothing usable
  (the call raises, the reply holds no JSON object, or the object does not parse) and the
  keyword evaluation of the tool succeeds, that evaluation is the result, with the keys
  \<open>match_score\<close>, \<open>matching_skills\<close>, \<open>critical_gaps\<close>, \<open>nice_to_have_gaps\<close>,
  \<open>recommendations\<close>, \<open>summary\<close>, \<open>job_title\<close>, \<open>analysis_method\<close>.
\<close>

theorem run_result_shapes:
  "(llm_attempt env (resume_skills_of pl) (short_term_skills_of pl) (long_term_forecast_of pl) = Some d \<longrightarrow>
      run env pl = Inr d \<and> ''job_title'' \<in> set (dict_keys d) \<and>
      ''analysis_method'' \<in> set (dict_keys d)) \<and>
   (llm_attempt env (resume_skills_of pl) (short_term_skills_of pl) (long_term_forecast_of pl) = None \<longrightarrow>
      run env pl = rules_evaluator (resume_skills_of pl) (short_term_skills_of pl)
                     (long_term_forecast_of pl)) \<and>
   (run env pl = Inr r \<longrightarrow>
      dict_keys r = rules_shape \<or>
      ''job_title'' \<in> set (dict_keys r) \<and> ''analysis_method'' \<in> set (dict_keys r)) \<and>
   (llm_unusable env \<and>
    map_err (\<lambda>s. dict_get s ''name'' PNone) (resume_skills_of pl) = Inr us \<and>
    dict_get (long_term_forecast_of pl) ''category'' (PStr []) = Inr jt \<and>
    basic_skill_evaluation env us (short_term_skills_of pl) jt = Inr b \<longrightarrow>
      run env pl = Inr b \<and> dict_keys b = basic_shape)"
proof (intro conjI impI)
  let ?rs = "resume_skills_of pl" and ?sts = "short_term_skills_of pl"
    and ?ltf = "long_term_forecast_of pl"
  {
    assume a: "llm_attempt env ?rs ?sts ?ltf = Some d"
    then show "run env pl = Inr d" by (simp add: run_def)
    from llm_attempt_result [OF a] obtain us' jt' where
      "evaluate_user_skills_with_gemini env us' ?sts jt' = Inr d" by blast
    from evaluate_returns_tagged_dict [OF this]
    show "''job_title'' \<in> set (dict_keys d)" and "''analysis_method'' \<in> set (dict_keys d)"
      by (auto simp: dict_keys_def)
  }
  {
    assume "llm_attempt env ?rs ?sts ?ltf = None"
    then show "run env pl = rules_evaluator ?rs ?sts ?ltf" by (simp add: run_def)
  }
  {
    assume r: "run env pl = Inr r"
    show "dict_keys r = rules_shape \<or>
      ''job_title'' \<in> set (dict_keys r) \<and> ''analysis_method'' \<in> set (dict_keys r)"
    proof (cases "llm_attempt env ?rs ?sts ?ltf")
      case None
      with r have "rules_evaluator ?rs ?sts ?ltf = Inr r" by (simp add: run_def)
      then show ?thesis by (simp add: rules_evaluator_keys)
    next
      case (Some d')
      with r have "d' = r" by (simp add: run_def)
      with Some llm_attempt_result obtain us' jt' where
        "evaluate_user_skills_with_gemini env us' ?sts jt' = Inr r" by blast
      from evaluate_returns_tagged_dict [OF this] show ?thesis
        by (auto simp: dict_keys_def)
    qed
  }
  {
    assume h: "llm_unusable env \<and>
      map_err (\<lambda>s. dict_get s ''name'' PNone) ?rs = Inr us \<and>
      dict_get ?ltf ''category'' (PStr []) = Inr jt \<and>
      basic_skill_evaluation env us ?sts jt = Inr b"
    then have "gemini_try env us ?sts jt \<noteq> Inr x" for x
      by (auto simp: gemini_try_def llm_unusable_def split: sum.splits option.splits)
    then obtain e where "gemini_try env us ?sts jt = Inl e"
      by (cases "gemini_try env us ?sts jt") auto
    with h have ev: "evaluate_user_skills_with_gemini env us ?sts jt = Inr b"
      by (simp add: evaluate_user_skills_with_gemini_def)
    from h have "basic_skill_evaluation env us ?sts jt = Inr b" by simp
    then have keys: "dict_keys b = basic_shape" by (rule basic_skill_evaluation_keys)
    from evaluate_returns_tagged_dict [OF ev] obtain kvs where "b = PDict kvs" by blast
    with h ev have "llm_attempt env ?rs ?sts ?ltf = Some b" by (simp add: llm_attempt_def)
    then show "run env pl = Inr b" by (simp add: run_def)
    from keys show "dict_keys b = basic_shape" .
  }
qed

theorem run_result_shapes_witness:
  "llm_unusable env_down \<and>
   run env_down sample_payload = Inr sample_basic_result \<and>
   dict_keys sample_basic_result = basic_shape \<and>
   run env_down sparse_payload =
     rules_evaluator (resume_skills_of sparse_payload) (short_term_skills_of sparse_payload)
       (long_term_forecast_of sparse_payload) \<and>
   result_keys (run env_down sparse_payload) = Some rules_shape"
proof -
  have h1: "llm_unusable env_down" by code_simp
  have h2: "map_err (\<lambda>s. dict_get s ''name'' PNone) (resume_skills_of sample_payload) =
      Inr [PStr ''Python'', PStr ''Docker'', PStr ''SQL'']" by code_simp
  have h3: "dict_get (long_term_forecast_of sample_payload) ''category'' (PStr []) =
      Inr (PStr ''High growth (Future-safe)'')" by code_simp
  have h4: "basic_skill_evaluation env_down [PStr ''Python'', PStr ''Docker'', PStr ''SQL'']
      (short_term_skills_of sample_payload) (PStr ''High growth (Future-safe)'') =
      Inr sample_basic_result" by code_simp
  have h5: "llm_attempt env_down (resume_skills_of sparse_payload)
      (short_term_skills_of sparse_payload) (long_term_forecast_of sparse_payload) = None"
    by code_simp
  have h6: "result_keys (run env_down sparse_payload) = Some rules_shape" by code_simp
  from h1 h2 h3 h4
    run_result_shapes [where env = env_down and pl = sample_payload and b = sample_basic_result
      and us = "[PStr ''Python'', PStr ''Docker'', PStr ''SQL'']"
      and jt = "PStr ''High growth (Future-safe)''"]
  have a: "run env_down sample_payload = Inr sample_basic_result \<and>
    dict_keys sample_basic_result = basic_shape" by simp
  from h5 run_result_shapes [where env = env_down and pl = sparse_payload]
  have b: "run env_down sparse_payload =
     rules_evaluator (resume_skills_of sparse_payload) (short_term_skills_of sparse_payload)
       (long_term_forecast_of sparse_payload)" by simp
  from h1 a b h6 show ?thesis by simp
qed

section \<open>The local occupation table\<close>

lemma distinct_common_mappings: "distinct (map fst common_mappings)"
  by (simp add: common_mappings_def entry_def)

lemma first_partial_find:
  "first_partial t xs = find (\<lambda>p. either_contains (fst p) t) xs"
  by (induction xs) auto

lemma first_partial_None:
  "first_partial t xs = None \<longleftrightarrow> (\<forall>p \<in> set xs. \<not> either_contains (fst p) t)"
  by (induction xs) (auto split: if_splits)

lemma first_partial_Some:
  "first_partial t xs = Some p \<longleftrightarrow>
     (\<exists>i<length xs. either_contains (fst (xs ! i)) t \<and> p = xs ! i \<and>
        (\<forall>j<i. \<not> either_contains (fst (xs ! j)) t))"
  by (simp add: first_partial_find find_Some_iff)

lemma py_in_refl: "py_in s s"
  by (simp add: py_in_iff_sublist)

text \<open>
  The claim C6 as stated fails in the arithmetic of the code. The penalty of a partial match
  is a subtraction of floats, and its result is the double nearest to the difference, not
  the difference itself. For the title "ML Engineer Lead" the entry \<open>ml engineer\<close> with
  stored confidence 0.8 is returned with the confidence that Python prints as
  0.7000000000000001: it is neither the stored double less the double 0.1, nor the stored
  double less one tenth, nor eight tenths less one tenth, nor the float 0.7.
\<close>

theorem fuzzy_match_occupation_float_counterexample:
  "fuzzy_match_occupation ''ML Engineer Lead'' =
     \<lparr>official_title = ''Data Scientists'', soc_code = Some ''15-2051'',
      confidence = 6305039478318695 / 2 ^ 53,
      notes_text = ''Partial match: '' @ [CHR 0x27] @ ''ML Engineer Lead'' @
                   [CHR 0x27, CHR '' ''] @ arrow @ [CHR '' '', CHR 0x27] @
                   ''ml engineer'' @ [CHR 0x27],
      data_source = ''Local mapping''\<rparr> \<and>
   map_of common_mappings ''ml engineer'' =
     Some \<lparr>m_title = ''Data Scientists'', m_soc = ''15-2051'',
           m_confidence = 3602879701896397 / 2 ^ 52\<rparr> \<and>
   double_of 0.1 = 3602879701896397 / 2 ^ 55 \<and>
   double_of 0.7 = 6305039478318694 / 2 ^ 53 \<and>
   (6305039478318695 / 2 ^ 53 :: real) \<noteq> 3602879701896397 / 2 ^ 52 - 3602879701896397 / 2 ^ 55 \<and>
   (6305039478318695 / 2 ^ 53 :: real) \<noteq> 3602879701896397 / 2 ^ 52 - 1 / 10 \<and>
   (6305039478318695 / 2 ^ 53 :: real) \<noteq> 8 / 10 - 1 / 10"
  by code_simp

text \<open>
  Claim C6, as amended. The fallback lookup lower-cases and strips the title. If the result
  is a key of the table, the entry's official title, SOC code and stored confidence are
  returned. Otherwise the first entry in table order whose key occurs in the title, or in
  whose key the title occurs, is returned with the confidence that the float subtraction of
  0.1 from the stored confidence yields, the double nearest to the difference. If no entry
  matches in either way, the result is the input title unchanged, no SOC code, the
  confidence 0.3 and the note recommending manual mapping.
\<close>

theorem fuzzy_match_occupation_cases:
  "((k, m) \<in> set common_mappings \<and> title_key t = k \<longrightarrow>
      fuzzy_match_occupation t =
        \<lparr>official_title = m_title m, soc_code = Some (m_soc m), confidence = m_confidence m,
         notes_text = ''Matched via fallback database (API unavailable)'',
         data_source = ''Local mapping''\<rparr>) \<and>
   (title_key t \<notin> fst ` set common_mappings \<and> i < length common_mappings \<and>
    common_mappings ! i = (k, m) \<and> either_contains k (title_key t) \<and>
    (\<forall>j<i. \<not> either_contains (fst (common_mappings ! j)) (title_key t)) \<longrightarrow>
      fuzzy_match_occupation t =
        \<lparr>official_title = m_title m, soc_code = Some (m_soc m),
         confidence = float_sub (m_confidence m) (double_of 0.1),
         notes_text = ''Partial match: '' @ [CHR 0x27] @ t @ [CHR 0x27, CHR '' ''] @
                      arrow @ [CHR '' '', CHR 0x27] @ k @ [CHR 0x27],
         data_source = ''Local mapping''\<rparr>) \<and>
   (title_key t \<notin> fst ` set common_mappings \<and>
    (\<exists>p \<in> set common_mappings. either_contains (fst p) (title_key t)) \<longrightarrow>
      (\<exists>p \<in> set common_mappings. either_contains (fst p) (title_key t) \<and>
         official_title (fuzzy_match_occupation t) = m_title (snd p) \<and>
         soc_code (fuzzy_match_occupation t) = Some (m_soc (snd p)) \<and>
         confidence (fuzzy_match_occupation t) = float_sub (m_confidence (snd p)) (double_of 0.1))) \<and>
   ((\<forall>p \<in> set common_mappings. \<not> either_contains (fst p) (title_key t)) \<longrightarrow>
      fuzzy_match_occupation t =
        \<lparr>official_title = t, soc_code = None, confidence = double_of 0.3,
         notes_text = ''No match found. Manual mapping recommended.'',
         data_source = ''No match''\<rparr>)"
proof (intro conjI impI)
  {
    assume "(k, m) \<in> set common_mappings \<and> title_key t = k"
    then have "map_of common_mappings (title_key t) = Some m"
      using distinct_common_mappings by simp
    then show "fuzzy_match_occupation t =
        \<lparr>official_title = m_title m, soc_code = Some (m_soc m), confidence = m_confidence m,
         notes_text = ''Matched via fallback database (API unavailable)'',
         data_source = ''Local mapping''\<rparr>"
      by (simp add: fuzzy_match_occupation_def Let_def)
  }
  {
    assume h: "title_key t \<notin> fst ` set common_mappings \<and> i < length common_mappings \<and>
      common_mappings ! i = (k, m) \<and> either_contains k (title_key t) \<and>
      (\<forall>j<i. \<not> either_contains (fst (common_mappings ! j)) (title_key t))"
    then have none: "map_of common_mappings (title_key t) = None"
      by (simp add: map_of_eq_None_iff)
    from h have "first_partial (title_key t) common_mappings = Some (k, m)"
      unfolding first_partial_Some by (intro exI [of _ i]) simp
    with none show "fuzzy_match_occupation t =
        \<lparr>official_title = m_title m, soc_code = Some (m_soc m),
         confidence = float_sub (m_confidence m) (double_of 0.1),
         notes_text = ''Partial match: '' @ [CHR 0x27] @ t @ [CHR 0x27, CHR '' ''] @
                      arrow @ [CHR '' '', CHR 0x27] @ k @ [CHR 0x27],
         data_source = ''Local mapping''\<rparr>"
      by (simp add: fuzzy_match_occupation_def Let_def)
  }
  {
    assume h: "title_key t \<notin> fst ` set common_mappings \<and>
      (\<exists>p \<in> set common_mappings. either_contains (fst p) (title_key t))"
    then have none: "map_of common_mappings (title_key t) = None"
      by (simp add: map_of_eq_None_iff)
    from h have "first_partial (title_key t) common_mappings \<noteq> None"
      by (simp add: first_partial_None)
    then obtain p where p: "first_partial (title_key t) common_mappings = Some p" by blast
    then have "p \<in> set common_mappings \<and> either_contains (fst p) (title_key t)"
      unfolding first_partial_Some by auto
    moreover from none p have "official_title (fuzzy_match_occupation t) = m_title (snd p) \<and>
         soc_code (fuzzy_match_occupation t) = Some (m_soc (snd p)) \<and>
         confidence (fuzzy_match_occupation t) = float_sub (m_confidence (snd p)) (double_of 0.1)"
      by (cases p) (simp add: fuzzy_match_occupation_def Let_def)
    ultimately show "\<exists>p \<in> set common_mappings. either_contains (fst p) (title_key t) \<and>
         official_title (fuzzy_match_occupation t) = m_title (snd p) \<and>
         soc_code (fuzzy_match_occupation t) = Some (m_soc (snd p)) \<and>
         confidence (fuzzy_match_occupation t) = float_sub (m_confidence (snd p)) (double_of 0.1)"
      by blast
  }
  {
    assume h: "\<forall>p \<in> set common_mappings. \<not> either_contains (fst p) (title_key t)"
    then have fp: "first_partial (title_key t) common_mappings = None"
      by (simp add: first_partial_None)
    have "title_key t \<notin> fst ` set common_mappings"
    proof
      assume "title_key t \<in> fst ` set common_mappings"
      then obtain p where "p \<in> set common_mappings" "fst p = title_key t" by force
      with h show False by (auto simp: either_contains_def py_in_refl)
    qed
    then have "map_of common_mappings (title_key t) = None"
      by (simp add: map_of_eq_None_iff)
    with fp show "fuzzy_match_occupation t =
        \<lparr>official_title = t, soc_code = None, confidence = double_of 0.3,
         notes_text = ''No match found. Manual mapping recommended.'',
         data_source = ''No match''\<rparr>"
      by (simp add: fuzzy_match_occupation_def Let_def)
  }
qed

theorem fuzzy_match_occupation_cases_witness:
  "fuzzy_match_occupation ''  Data Scientist '' =
     \<lparr>official_title = ''Data Scientists'', soc_code = Some ''15-2051'',
      confidence = double_of 0.85,
      notes_text = ''Matched via fallback database (API unavailable)'',
      data_source = ''Local mapping''\<rparr> \<and>
   fuzzy_match_occupation ''Senior Software Developer'' =
     \<lparr>official_title = ''Software Developers'', soc_code = Some ''15-1252'',
      confidence = float_sub (double_of 0.90) (double_of 0.1),
      notes_text = ''Partial match: '' @ [CHR 0x27] @ ''Senior Software Developer'' @
                   [CHR 0x27, CHR '' ''] @ arrow @ [CHR '' '', CHR 0x27] @
                   ''software developer'' @ [CHR 0x27],
      data_source = ''Local mapping''\<rparr> \<and>
   float_sub (double_of 0.90) (double_of 0.1) = double_of 0.8 \<and>
   fuzzy_match_occupation ''Plumber'' =
     \<lparr>official_title = ''Plumber'', soc_code = None, confidence = double_of 0.3,
      notes_text = ''No match found. Manual mapping recommended.'',
      data_source = ''No match''\<rparr>"
proof -
  let ?ds = "\<lparr>m_title = ''Data Scientists'', m_soc = ''15-2051'',
               m_confidence = double_of 0.85\<rparr>"
  let ?sd = "\<lparr>m_title = ''Software Developers'', m_soc = ''15-1252'',
               m_confidence = double_of 0.90\<rparr>"
  have e0: "(''data scientist'', ?ds) \<in> set common_mappings"
    by (simp add: common_mappings_def entry_def)
  have e1: "title_key ''  Data Scientist '' = ''data scientist''"
    by code_simp
  have p1: "title_key ''Senior Software Developer'' \<notin> fst ` set common_mappings"
    by code_simp
  have p2: "4 < length common_mappings \<and>
      common_mappings ! 4 = (''software developer'', ?sd)"
    by (simp add: common_mappings_def entry_def)
  have p2': "either_contains ''software developer'' (title_key ''Senior Software Developer'')"
    by code_simp
  have p3: "\<forall>j<4. \<not> either_contains (fst (common_mappings ! j))
      (title_key ''Senior Software Developer'')"
    by code_simp
  have n1: "\<forall>p \<in> set common_mappings. \<not> either_contains (fst p) (title_key ''Plumber'')"
    by code_simp
  have fl: "float_sub (double_of 0.90) (double_of 0.1) = double_of 0.8"
    by code_simp
  from e0 e1 fuzzy_match_occupation_cases [where t = "''  Data Scientist ''"
      and k = "''data scientist''" and m = ?ds]
  have a: "fuzzy_match_occupation ''  Data Scientist '' =
     \<lparr>official_title = ''Data Scientists'', soc_code = Some ''15-2051'',
      confidence = double_of 0.85,
      notes_text = ''Matched via fallback database (API unavailable)'',
      data_source = ''Local mapping''\<rparr>" by simp
  from p1 p2 p2' p3 fuzzy_match_occupation_cases [where t = "''Senior Software Developer''"
      and k = "''software developer''" and m = ?sd and i = 4]
  have b: "fuzzy_match_occupation ''Senior Software Developer'' =
     \<lparr>official_title = ''Software Developers'', soc_code = Some ''15-1252'',
      confidence = float_sub (double_of 0.90) (double_of 0.1),
      notes_text = ''Partial match: '' @ [CHR 0x27] @ ''Senior Software Developer'' @
                   [CHR 0x27, CHR '' ''] @ arrow @ [CHR '' '', CHR 0x27] @
                   ''software developer'' @ [CHR 0x27],
      data_source = ''Local mapping''\<rparr>" by simp
  from n1 fuzzy_match_occupation_cases [where t = "''Plumber''"]
  have c: "fuzzy_match_occupation ''Plumber'' =
     \<lparr>official_title = ''Plumber'', soc_code = None, confidence = double_of 0.3,
      notes_text = ''No match found. Manual mapping recommended.'',
      data_source = ''No match''\<rparr>" by simp
  from a b c fl show ?thesis by simp
qed

section \<open>The resource filter\<close>

lemma filter_loop_eq:
  "filter_loop fya rs acc =
     acc @ filter (\<lambda>r. strptime_date r \<ge> fya \<and> views r \<ge> 50000) rs"
  by (induction rs arbitrary: acc) auto

text \<open>
  What the two branches of the loop compute together: the branch for 100,000 views keeps
  nothing that the branch for 50,000 views does not keep, and the order is preserved.
\<close>

lemma filter_resources_eq:
  "filter_resources now rs =
     filter (\<lambda>r. strptime_date r \<ge> now - timedelta_days (365 * 5) \<and> views r \<ge> 50000) rs"
  by (simp add: filter_resources_def filter_loop_eq)

text \<open>
  Claim C7 says that a candidate is kept if and only if it is strictly less than five years
  old and has the views asked for; the comment in the loop says the same (videos less than
  five years old). The three examples of the claim come out as it says: 80,000 views and
  two years are kept, 80,000 views and six years are rejected, 200,000 views and six years
  are rejected. At the age gate the code departs from the claim. It compares the upload
  date with \<open>>=\<close> against the time of filtering less five times 365 days, so a video with
  100,000 views whose upload lies exactly 1825 days back is kept although its age is not
  less than these five years; and twelve hours later the same video is rejected although it
  is still short of its fifth anniversary, because five times 365 days leave out the leap day.
\<close>

theorem filter_resources_boundary:
  "filter_resources boundary_now [boundary_video] = [boundary_video] \<and>
   views boundary_video = 100000 \<and>
   upload_age boundary_now boundary_video = five_years \<and>
   \<not> upload_age boundary_now boundary_video < five_years \<and>
   filter_resources boundary_noon [boundary_video] = [] \<and>
   boundary_noon < fifth_anniversary \<and>
   upload_age boundary_now recent_video = timedelta_days (365 * 2) \<and>
   filter_resources boundary_now [recent_video] = [recent_video] \<and>
   upload_age boundary_now old_video = timedelta_days (365 * 6) \<and>
   filter_resources boundary_now [old_video] = [] \<and>
   upload_age boundary_now old_popular_video = timedelta_days (365 * 6) \<and>
   filter_resources boundary_now [old_popular_video] = []"
  by (simp add: filter_resources_def boundary_now_def boundary_noon_def fifth_anniversary_def
      boundary_video_def recent_video_def old_video_def old_popular_video_def upload_age_def
      five_years_def strptime_date_def timedelta_days_def us_per_day_def)

section \<open>Reading the JSON file cache\<close>

text \<open>
  Claim C9. For every role and time to live, \<open>get_cached_skills\<close> returns and never raises.
  A missing cache file, a file that cannot be read, a file that is not JSON, a missing key,
  and a stored time stamp that is absent or does not parse to a naive \<open>datetime\<close> all give
  \<open>None\<close>, as a cache miss does.
\<close>

theorem get_cached_skills_total:
  "(\<exists>v. get_cached_skills clk fs role ttl = Inr v) \<and>
   get_cached_skills clk Missing role ttl = Inr PNone \<and>
   get_cached_skills clk Unreadable role ttl = Inr PNone \<and>
   get_cached_skills clk Corrupt role ttl = Inr PNone \<and>
   (role \<notin> fst ` set kvs \<longrightarrow> get_cached_skills clk (Holds (PDict kvs)) role ttl = Inr PNone) \<and>
   (map_of kvs role = Some (PDict ent) \<and> map_of ent ''timestamp'' = Some ts \<and>
    (\<forall>t. parse_timestamp clk ts \<noteq> Inr (Naive t)) \<longrightarrow>
      get_cached_skills clk (Holds (PDict kvs)) role ttl = Inr PNone) \<and>
   (map_of kvs role = Some (PDict ent) \<and> map_of ent ''timestamp'' = None \<longrightarrow>
      get_cached_skills clk (Holds (PDict kvs)) role ttl = Inr PNone)"
proof (intro conjI impI)
  show "\<exists>v. get_cached_skills clk fs role ttl = Inr v"
    by (simp add: get_cached_skills_def split: sum.splits)
  show "get_cached_skills clk Missing role ttl = Inr PNone"
    by (simp add: get_cached_skills_def)
  show "get_cached_skills clk Unreadable role ttl = Inr PNone"
    by (simp add: get_cached_skills_def get_cached_try_def)
  show "get_cached_skills clk Corrupt role ttl = Inr PNone"
    by (simp add: get_cached_skills_def get_cached_try_def)
  {
    assume "role \<notin> fst ` set kvs"
    then show "get_cached_skills clk (Holds (PDict kvs)) role ttl = Inr PNone"
      by (simp add: get_cached_skills_def get_cached_try_def)
  }
  {
    assume h: "map_of kvs role = Some (PDict ent) \<and> map_of ent ''timestamp'' = Some ts \<and>
      (\<forall>t. parse_timestamp clk ts \<noteq> Inr (Naive t))"
    then have "role \<in> fst ` set kvs"
      by (metis map_of_eq_None_iff option.distinct(1))
    with h show "get_cached_skills clk (Holds (PDict kvs)) role ttl = Inr PNone"
      by (auto simp: get_cached_skills_def get_cached_try_def time_since_def
          split: sum.splits parsed_time.splits)
  }
  {
    assume h: "map_of kvs role = Some (PDict ent) \<and> map_of ent ''timestamp'' = None"
    then have "role \<in> fst ` set kvs"
      by (metis map_of_eq_None_iff option.distinct(1))
    with h show "get_cached_skills clk (Holds (PDict kvs)) role ttl = Inr PNone"
      by (simp add: get_cached_skills_def get_cached_try_def)
  }
qed

theorem get_cached_skills_total_witness:
  "get_cached_skills (digits_clock 2000) (Holds (PDict bad_stamp_cache)) ''Plumber'' 86400 = Inr PNone \<and>
   get_cached_skills (digits_clock 2000) (Holds (PDict bad_stamp_cache)) ''Data Scientist'' 86400
     = Inr PNone \<and>
   get_cached_skills (digits_clock 2000)
     (Holds (PDict [(''Data Scientist'', PDict [(''data'', PNone)])])) ''Data Scientist'' 86400
     = Inr PNone"
proof -
  let ?ent = "[(''timestamp'', PStr ''yesterday''),
               (''data'', PDict [(''role'', PStr ''Data Scientist'')])]"
  have a: "''Plumber'' \<notin> fst ` set bad_stamp_cache"
    by (simp add: bad_stamp_cache_def)
  have "parse_timestamp (digits_clock 2000) (PStr ''yesterday'') = Inl ValueError"
    by code_simp
  then have b: "map_of bad_stamp_cache ''Data Scientist'' = Some (PDict ?ent) \<and>
      map_of ?ent ''timestamp'' = Some (PStr ''yesterday'') \<and>
      (\<forall>t. parse_timestamp (digits_clock 2000) (PStr ''yesterday'') \<noteq> Inr (Naive t))"
    by (simp add: bad_stamp_cache_def)
  have c: "map_of [(''Data Scientist'', PDict [(''data'', PNone)])] ''Data Scientist'' =
      Some (PDict [(''data'', PNone)]) \<and> map_of [(''data'', PNone)] ''timestamp'' = None"
    by simp
  from a get_cached_skills_total [where role = "''Plumber''" and kvs = bad_stamp_cache]
  have a': "get_cached_skills (digits_clock 2000) (Holds (PDict bad_stamp_cache)) ''Plumber'' 86400
      = Inr PNone" by blast
  from b get_cached_skills_total [where role = "''Data Scientist''" and kvs = bad_stamp_cache
      and ent = ?ent and ts = "PStr ''yesterday''" and clk = "digits_clock 2000"]
  have b': "get_cached_skills (digits_clock 2000) (Holds (PDict bad_stamp_cache))
      ''Data Scientist'' 86400 = Inr PNone" by blast
  from c get_cached_skills_total [where role = "''Data Scientist''"
      and kvs = "[(''Data Scientist'', PDict [(''data'', PNone)])]" and ent = "[(''data'', PNone)]"]
  have c': "get_cached_skills (digits_clock 2000)
     (Holds (PDict [(''Data Scientist'', PDict [(''data'', PNone)])])) ''Data Scientist'' 86400
     = Inr PNone" by blast
  from a' b' c' show ?thesis by simp
qed

section \<open>The SQLite cache round trip\<close>

text \<open>
  The claim C4 as stated fails for a very long time to live. With a time to live of
  \<open>10 ^ 14\<close> seconds the row is stored, and reading it back one millisecond later raises
  OverflowError when the time to live is turned into a \<open>timedelta\<close>, instead of returning the
  value.
\<close>

theorem set_then_get_overflow_counterexample:
  "(0::int) < 10 ^ 14 \<and> 2000 - time_now (empty_object_codec 1000) \<le> 10 ^ 14 * (1000000::int) \<and>
   set_then_get (empty_object_codec 1000) Map.empty ''k'' (PDict []) (10 ^ 14) 2000 =
     Inl OverflowError"
  by code_simp

text \<open>
  Claim C4, as amended. For every key, every value that \<open>json\<close> writes and reads back
  unchanged, and every time to live above 0 and below 86,400,000,000,000 seconds (what a
  \<open>timedelta\<close> can hold), storing the value and reading the key when the clock has advanced
  by at most the time to live returns the value, and reading it when the clock has advanced
  by more returns \<open>None\<close>: an expired entry is never returned. The time stamp is written
  with \<open>isoformat\<close> and read with \<open>fromisoformat\<close>, which give back the naive time written.
\<close>

theorem set_then_get_roundtrip:
  assumes "loads cdc (dumps cdc v) = Some v"
    and "fromisoformat cdc (isoformat cdc (time_now cdc)) = Some (Naive (time_now cdc))"
    and "0 < ttl" and "ttl < 86400 * 1000000000"
  shows "(later - time_now cdc \<le> ttl * 1000000 \<longrightarrow>
            set_then_get cdc db key v ttl later = Inr v) \<and>
         (later - time_now cdc > ttl * 1000000 \<longrightarrow>
            set_then_get cdc db key v ttl later = Inr PNone)"
proof -
  from assms(3,4) have "ttl div 86400 \<le> 999999999" and "- 999999999 \<le> ttl div 86400"
    by auto
  then have td: "timedelta_seconds ttl = Inr (ttl * 1000000)"
    by (simp add: timedelta_seconds_def)
  from assms(3,4) have fits: "- (2 ^ 63) \<le> ttl \<and> ttl < 2 ^ 63" by simp
  show ?thesis
    using assms(1,2) td fits
    by (simp add: set_then_get_def set_in_cache_def get_from_cache_def time_since_def)
qed

theorem set_then_get_roundtrip_witness:
  "set_then_get (empty_object_codec 1000) Map.empty ''k'' (PDict []) 60 60001000 = Inr (PDict []) \<and>
   set_then_get (empty_object_codec 1000) Map.empty ''k'' (PDict []) 60 60001001 = Inr PNone"
proof -
  let ?c = "empty_object_codec 1000"
  have h1: "loads ?c (dumps ?c (PDict [])) = Some (PDict [])" by code_simp
  have h2: "fromisoformat ?c (isoformat ?c (time_now ?c)) = Some (Naive (time_now ?c))"
    by code_simp
  have h3: "(0::int) < 60" and h4: "(60::int) < 86400 * 1000000000" by simp_all
  have t: "time_now ?c = 1000" by code_simp
  from set_then_get_roundtrip [OF h1 h2 h3 h4, of 60001000 Map.empty "''k''"] t
  have a: "set_then_get ?c Map.empty ''k'' (PDict []) 60 60001000 = Inr (PDict [])" by simp
  from set_then_get_roundtrip [OF h1 h2 h3 h4, of 60001001 Map.empty "''k''"] t
  have b: "set_then_get ?c Map.empty ''k'' (PDict []) 60 60001001 = Inr PNone" by simp
  from a b show ?thesis by simp
qed

section \<open>The long-term forecast stage\<close>

lemma fetch_job_projections_keys:
  "\<exists>kvs. fetch_job_projections benv soc job = PDict kvs \<and>
     ''error'' \<notin> fst ` set kvs \<and> ''growth_percent'' \<notin> fst ` set kvs \<and>
     ''category'' \<notin> fst ` set kvs"
  by (cases "bls_reply benv")
     (auto simp: fetch_job_projections_def fetch_bls_data_def fetch_from_occupational_outlook_def
        Let_def)

lemma forecast_run_raises:
  assumes "get_cached_skills clk fs (''forecast_'' @ soc) 604800 = Inr cached"
    and "\<not> truthy cached"
  shows "fst (forecast_run clk benv fs soc job) = Inl (KeyError ''growth_percent'')"
proof -
  from fetch_job_projections_keys obtain kvs where
    r: "fetch_job_projections benv soc job = PDict kvs" and
    k: "''error'' \<notin> fst ` set kvs" "''growth_percent'' \<notin> fst ` set kvs" by blast
  from k(2) have "map_of (AList.update ''cache_ttl_seconds'' (PInt 604800) kvs) ''growth_percent'' = None"
    by (simp add: map_of_eq_None_iff dom_update)
  with assms r k(1) show ?thesis
    by (simp add: forecast_run_def Let_def)
qed

lemma fetch_offline_keys:
  "\<exists>kvs. fetch_job_projections offline_bls soc job = PDict kvs \<and>
     map fst kvs = [''soc_code'', ''job_title'', ''projections'', ''source'', ''projection_period'',
                    ''growth_rate_annual'', ''success'', ''note'']"
  by (simp add: fetch_job_projections_def fetch_bls_data_def offline_bls_def
      fetch_from_occupational_outlook_def Let_def)

text \<open>
  Claim C5 says that every result of the long-term forecast stage carries a category derived
  from its \<open>growth_percent\<close> (Future-safe from 10 on, Stable from 0 to below 10, Declining
  below 0). The stage does not deliver it. For SOC code 15-2051 with an empty cache and the
  statistics API out of reach, the projections have neither \<open>growth_percent\<close> nor
  \<open>category\<close>; \<open>run\<close> stores them in the cache and then raises KeyError at
  \<open>result['growth_percent']\<close>, and the next call returns the cached record, again without
  a category.
\<close>

theorem forecast_run_offline:
  "fst (forecast_run (digits_clock 1000) offline_bls Missing ''15-2051'' ''Data Scientists'') =
     Inl (KeyError ''growth_percent'') \<and>
   dict_keys (fetch_job_projections offline_bls ''15-2051'' ''Data Scientists'') =
     [''soc_code'', ''job_title'', ''projections'', ''source'', ''projection_period'',
      ''growth_rate_annual'', ''success'', ''note''] \<and>
   result_keys (fst (forecast_run (digits_clock 2000) offline_bls
       (snd (forecast_run (digits_clock 1000) offline_bls Missing ''15-2051'' ''Data Scientists''))
       ''15-2051'' ''Data Scientists'')) =
     Some [''soc_code'', ''job_title'', ''projections'', ''source'', ''projection_period'',
           ''growth_rate_annual'', ''success'', ''note'', ''cache_ttl_seconds'']"
proof -
  let ?soc = "''15-2051''" and ?job = "''Data Scientists''"
  let ?key = "''forecast_15-2051''"
  from fetch_offline_keys [of ?soc ?job] obtain kvs where
    r: "fetch_job_projections offline_bls ?soc ?job = PDict kvs" and
    keys: "map fst kvs = [''soc_code'', ''job_title'', ''projections'', ''source'',
      ''projection_period'', ''growth_rate_annual'', ''success'', ''note'']" by auto
  let ?res = "PDict (AList.update ''cache_ttl_seconds'' (PInt 604800) kvs)"
  have fst_keys: "fst ` set kvs = set (map fst kvs)" by simp
  have no_err: "''error'' \<notin> fst ` set kvs" and no_gp: "''growth_percent'' \<notin> fst ` set kvs"
    unfolding fst_keys keys by simp_all
  have miss: "get_cached_skills (digits_clock 1000) Missing (''forecast_'' @ ?soc) 604800 = Inr PNone"
    by (simp add: get_cached_skills_def)
  have first: "fst (forecast_run (digits_clock 1000) offline_bls Missing ?soc ?job) =
      Inl (KeyError ''growth_percent'')"
    using forecast_run_raises [OF miss] by simp
  have gp: "map_of (AList.update ''cache_ttl_seconds'' (PInt 604800) kvs) ''growth_percent'' = None"
    using no_gp by (simp add: map_of_eq_None_iff dom_update)
  have written: "snd (forecast_run (digits_clock 1000) offline_bls Missing ?soc ?job) =
      Holds (PDict [(?key, PDict [(''timestamp'', PStr ''1000''), (''data'', ?res)])])"
  proof -
    have iso: "isoformat (digits_clock 1000) (time_now (digits_clock 1000)) = ''1000''"
      by code_simp
    show ?thesis
      using miss r no_err gp iso
      by (simp add: forecast_run_def Let_def cache_skills_data_def cache_entry_def)
  qed
  have upd_keys: "map fst (AList.update ''cache_ttl_seconds'' (PInt 604800) kvs) =
      [''soc_code'', ''job_title'', ''projections'', ''source'', ''projection_period'',
       ''growth_rate_annual'', ''success'', ''note'', ''cache_ttl_seconds'']"
    using keys by (simp add: update_keys)
  then have nonempty: "AList.update ''cache_ttl_seconds'' (PInt 604800) kvs \<noteq> []" by auto
  have parse: "parse_timestamp (digits_clock 2000) (PStr ''1000'') = Inr (Naive 1000)"
    by code_simp
  have now2: "time_now (digits_clock 2000) = 2000" by code_simp
  have td: "timedelta_seconds 604800 = Inr 604800000000" by (simp add: timedelta_seconds_def)
  have hit: "get_cached_skills (digits_clock 2000)
      (Holds (PDict [(?key, PDict [(''timestamp'', PStr ''1000''), (''data'', ?res)])]))
      (''forecast_'' @ ?soc) 604800 = Inr ?res"
    using parse now2 td
    by (simp add: get_cached_skills_def get_cached_try_def time_since_def)
  have second: "fst (forecast_run (digits_clock 2000) offline_bls
       (Holds (PDict [(?key, PDict [(''timestamp'', PStr ''1000''), (''data'', ?res)])]))
       ?soc ?job) = Inr ?res"
    using hit nonempty by (simp add: forecast_run_def Let_def)
  show ?thesis
    using first r keys written second upd_keys
    by (simp add: dict_keys_def result_keys_def)
qed

section \<open>The skill list of the short-term skills agent\<close>

text \<open>
  The one part of the post-processing that the agent does: a result computed afresh lists
  at most 20 skills.
\<close>

lemma base_run_fresh_at_most_20:
  assumes "get_cached_skills clk fs (extract_role_from_query q) 86400 = Inr c"
    and "\<not> truthy c"
    and "fst (base_run clk aenv fs q) = Inr (PDict kvs)"
    and "map_of kvs ''top_skills'' = Some (PList ys)"
  shows "length ys \<le> 20"
proof (cases "job_descriptions aenv = []")
  case True
  with assms(1-3) have "kvs = [(''error'', PStr ''No job postings found''),
      (''role'', PStr (extract_role_from_query q)), (''confidence'', PFloat 0.0)]"
    by (simp add: base_run_def Let_def)
  with assms(4) show ?thesis by simp
next
  case False
  with assms(1-3) obtain skills top_skills where
    sl: "slice_20 skills = Inr top_skills" and
    kv: "map_of kvs ''top_skills'' = Some top_skills"
    by (auto simp: base_run_def Let_def split: sum.splits)
  from kv assms(4) have "top_skills = PList ys" by simp
  with sl show ?thesis by (cases skills) auto
qed

text \<open>
  Claim C8 says that the skill list of every short-term analysis has at most 20 skills,
  each with a frequency of at least 5 percent, sorted by frequency and then by mention
  count, both descending. The agent does not see to it. Its \<open>run\<close> hands on the first 20
  entries of the model's list as they come, with no threshold and no sorting: when the
  reply lists a skill with frequency 3 ahead of one with frequency 90, so does the result.
\<close>

theorem base_run_unranked:
  "fst (base_run (digits_clock 1000) unranked_env Missing ''Top skills for data scientist'') =
     Inr (PDict
       [(''role'', PStr ''Data Scientist''),
        (''top_skills'', PList unranked_skills),
        (''data_source'', PStr ''Adzuna (90d, 30 jobs)''),
        (''confidence'', PFloat 0.70),
        (''cache_ttl_seconds'', PInt 86400)]) \<and>
   \<not> spec_skill_list unranked_skills \<and>
   \<not> list_all (\<lambda>s. number_field ''frequency'' s \<ge> 5) unranked_skills \<and>
   \<not> sorted_wrt (\<lambda>a b. rank_key a \<ge> rank_key b) unranked_skills"
  by code_simp

end
